theory Spec2Isabelle
  imports Main "HOL-Library.AList"
begin

section \<open>TypedJSON: the converter front end, the member decorators and their collaborators\<close>

text \<open>
  The development follows \<^verbatim>\<open>typed-json.ts\<close> (the class \<^verbatim>\<open>TypedJSON\<close>),
  \<^verbatim>\<open>typedjson/json-member.ts\<close> and \<^verbatim>\<open>typedjson/json-set-member.ts\<close>.
  The modules \<^verbatim>\<open>typedjson/metadata\<close>, \<^verbatim>\<open>typedjson/helpers\<close>,
  \<^verbatim>\<open>typedjson/serializer\<close> and \<^verbatim>\<open>typedjson/deserializer\<close> are imported by these
  files but are not part of the sources at hand. The front end takes them as parameters
  (the record \<open>collab\<close>); a second part of the theory gives an instance of these parameters
  that follows the written specification.
\<close>

subsection \<open>JavaScript values, constructors, exceptions\<close>

text \<open>
  Constructor functions are compared by identity. The builtins that the sources name are
  constructors of their own; a user class is \<open>ClassCtor n\<close>.
\<close>

datatype ctor =
    ArrayCtor | SetCtor | MapCtor | ObjectCtor
  | NumberCtor | StringCtor | BooleanCtor
  | ClassCtor nat

text \<open>
  Runtime values. Numbers are integers (floating point is outside the model). A \<open>SetV\<close>
  and a \<open>MapV\<close> list their entries in iteration order. \<open>Obj c fs\<close> is an object created
  by constructor \<open>c\<close> with own properties \<open>fs\<close>; a plain object literal (what
  \<^verbatim>\<open>JSON.parse\<close> builds) is \<open>Obj ObjectCtor fs\<close>.
\<close>

datatype val =
    Undefined | Null
  | Bool bool | Num int | Str string
  | Arr "val list"
  | SetV "val list"
  | MapV "(val \<times> val) list"
  | Obj ctor "(string \<times> val) list"

text \<open>
  Exceptions: the error classes of the language that the sources throw or can meet, and
  the error kinds of the converter (section 7 of the specification), each with a detail.
\<close>

datatype errorKind =
    UnresolvableConstructor
  | TypeShapeMismatch
  | MissingRequiredMember
  | AmbiguousTypeName
  | UnregisteredRootType

datatype error =
    TypeError string
  | SyntaxError string
  | RangeError string
  | Error string
  | Conversion errorKind string

text \<open>An array slot or an option that may hold \<^verbatim>\<open>undefined\<close> or \<^verbatim>\<open>null\<close>.\<close>

datatype 'a nullable = IsUndefined | IsNull | Defined 'a

fun defined_values :: "'a nullable list \<Rightarrow> 'a list" where
  "defined_values [] = []"
| "defined_values (Defined x # xs) = x # defined_values xs"
| "defined_values (_ # xs) = defined_values xs"

text \<open>
  \<^verbatim>\<open>JsonMemberMetadata\<close>, with the fields that the decorators assign. A decorator
  that does not assign \<^verbatim>\<open>emitDefaultValue\<close> or \<^verbatim>\<open>isRequired\<close> leaves \<open>None\<close>.
  \<^verbatim>\<open>JsonObjectMetadata\<close>, with the fields that the converter reads.
\<close>

record JsonMemberMetadata =
  ctor :: ctor
  elementType :: "ctor list option"
  emitDefaultValue :: "bool option"
  isRequired :: "bool option"
  key :: string
  name :: string

record JsonObjectMetadata =
  isExplicitlyMarked :: bool
  knownTypes :: "ctor list"

text \<open>
  What a call leaves on the outside: the errors handed to an error handler, the console
  output of \<^verbatim>\<open>Helpers.logError\<close> and \<^verbatim>\<open>Helpers.logWarning\<close>, and the calls
  \<^verbatim>\<open>injectMetadataInformation(target, propKey, metadata)\<close> (the target prototype is
  named by its class). The three helpers are missing from the sources: a call of one of
  them is recorded, and it returns.
\<close>

datatype event =
    Handled error
  | ErrorLogged error
  | MessageLogged string
  | WarningLogged string
  | Injected ctor string JsonMemberMetadata

text \<open>
  A computation returns the events it produced and either the exception it threw
  (\<open>Inl\<close>) or its value (\<open>Inr\<close>).
\<close>

type_synonym 'a comp = "event list \<times> (error + 'a)"

definition bind :: "'a comp \<Rightarrow> ('a \<Rightarrow> 'b comp) \<Rightarrow> 'b comp" where
  "bind m f =
     (case m of
        (es, Inl e) \<Rightarrow> (es, Inl e)
      | (es, Inr a) \<Rightarrow> (case f a of (es', r) \<Rightarrow> (es @ es', r)))"

text \<open>
  An error handler is a callback \<^verbatim>\<open>(e: Error) => void\<close>. What matters of a user handler
  is whether it returns (\<open>None\<close>) or throws (\<open>Some e'\<close>); the handler a converter starts
  with is \<^verbatim>\<open>(error) => Helpers.logError(error)\<close>.
\<close>

datatype handler = LogErrorHandler | Callback "error \<Rightarrow> error option"

fun invoke :: "handler \<Rightarrow> error \<Rightarrow> unit comp" where
  "invoke LogErrorHandler e = ([Handled e, ErrorLogged e], Inr ())"
| "invoke (Callback h) e =
     ([Handled e], (case h e of None \<Rightarrow> Inr () | Some e' \<Rightarrow> Inl e'))"

subsection \<open>Settings and metadata\<close>

type_synonym knownTypesMap = "(string \<times> ctor) list"

text \<open>
  \<^verbatim>\<open>Map.prototype.set\<close>: a new key goes to the end, a known key keeps its place and
  takes the new value. This is \<open>AList.update\<close>.
\<close>

definition map_set :: "string \<Rightarrow> ctor \<Rightarrow> knownTypesMap \<Rightarrow> knownTypesMap" where
  "map_set k v m = AList.update k v m"

text \<open>
  \<^verbatim>\<open>ITypedJSONSettings\<close>: every key is optional; \<open>None\<close> is a key that is not set (a key
  that is set to \<^verbatim>\<open>undefined\<close> is not told apart from it). The indentation is a natural
  number. The fields are prefixed with \<open>s_\<close> since the converter has fields of the same
  names.
\<close>

record settings =
  s_errorHandler :: "(error \<Rightarrow> error option) option"
  s_typeResolver :: "(val \<Rightarrow> knownTypesMap \<Rightarrow> ctor option) option"
  s_nameResolver :: "(ctor \<Rightarrow> string) option"
  s_typeHintEmitter :: "(val \<Rightarrow> val \<Rightarrow> ctor \<Rightarrow> val) option"
  s_indent :: "nat option"
  s_replacer :: "(string \<Rightarrow> val \<Rightarrow> val) option"
  s_knownTypes :: "ctor nullable list option"

definition no_settings :: settings where
  "no_settings = \<lparr> s_errorHandler = None, s_typeResolver = None, s_nameResolver = None,
     s_typeHintEmitter = None, s_indent = None, s_replacer = None, s_knownTypes = None \<rparr>"

subsection \<open>The serializer and deserializer objects, and the other collaborators\<close>

text \<open>
  What the front end configures on its \<^verbatim>\<open>Deserializer\<close> and \<^verbatim>\<open>Serializer\<close> objects,
  through \<^verbatim>\<open>setErrorHandler\<close>, \<^verbatim>\<open>setTypeResolver\<close>, \<^verbatim>\<open>setNameResolver\<close> and
  \<^verbatim>\<open>setTypeHintEmitter\<close>; \<open>None\<close> is the default of the object.
\<close>

record deserializer =
  d_errorHandler :: handler
  d_typeResolver :: "(val \<Rightarrow> knownTypesMap \<Rightarrow> ctor option) option"
  d_nameResolver :: "(ctor \<Rightarrow> string) option"

record serializer =
  z_errorHandler :: handler
  z_typeHintEmitter :: "(val \<Rightarrow> val \<Rightarrow> ctor \<Rightarrow> val) option"

text \<open>The \<^verbatim>\<open>typeInfo\<close> argument of the deserializer's entry points.\<close>

record typeInfo =
  selfConstructor :: ctor
  elementConstructor :: "ctor list option"
  ti_knownTypes :: knownTypesMap
  keyConstructor :: "ctor option"

text \<open>
  The collaborators of the front end: the metadata lookup, \<^verbatim>\<open>Helpers.nameof\<close>, the class
  hierarchy that \<^verbatim>\<open>instanceof\<close> consults, the JSON text codec, and the entry points of
  \<^verbatim>\<open>Deserializer\<close> and \<^verbatim>\<open>Serializer\<close>.
\<close>

record collab =
  getFromConstructor :: "ctor \<Rightarrow> JsonObjectMetadata option"
  nameof :: "ctor \<Rightarrow> string"
  extends :: "ctor \<Rightarrow> ctor \<Rightarrow> bool"
  JSON_parse :: "string \<Rightarrow> error + val"
  JSON_stringify :: "val \<Rightarrow> (string \<Rightarrow> val \<Rightarrow> val) option \<Rightarrow> nat \<Rightarrow> error + val"
  des_convertSingleValue :: "deserializer \<Rightarrow> val \<Rightarrow> typeInfo \<Rightarrow> val comp"
  des_convertAsArray :: "deserializer \<Rightarrow> val \<Rightarrow> typeInfo \<Rightarrow> val comp"
  des_convertAsSet :: "deserializer \<Rightarrow> val \<Rightarrow> typeInfo \<Rightarrow> val comp"
  des_convertAsMap :: "deserializer \<Rightarrow> val \<Rightarrow> typeInfo \<Rightarrow> val comp"
  ser_convertSingleValue :: "serializer \<Rightarrow> val \<Rightarrow> ctor \<Rightarrow> val comp"
  ser_convertAsArray :: "serializer \<Rightarrow> val \<Rightarrow> ctor list \<Rightarrow> val comp"
  ser_convertAsSet :: "serializer \<Rightarrow> val \<Rightarrow> ctor \<Rightarrow> val comp"
  ser_convertAsMap :: "serializer \<Rightarrow> val \<Rightarrow> ctor \<Rightarrow> ctor \<Rightarrow> val comp"

subsection \<open>Printing numbers\<close>

fun digit_char :: "nat \<Rightarrow> char" where
  "digit_char n = char_of (48 + n)"

fun show_nat_fuel :: "nat \<Rightarrow> nat \<Rightarrow> string" where
  "show_nat_fuel 0 n = [digit_char (n mod 10)]"
| "show_nat_fuel (Suc f) n =
     (if n < 10 then [digit_char n] else show_nat_fuel f (n div 10) @ [digit_char (n mod 10)])"

definition show_nat :: "nat \<Rightarrow> string" where
  "show_nat n = show_nat_fuel n n"

definition show_int :: "int \<Rightarrow> string" where
  "show_int i = (if i < 0 then CHR ''-'' # show_nat (nat (- i)) else show_nat (nat i))"

subsection \<open>The class \<^verbatim>\<open>TypedJSON\<close>: static configuration, constructor, \<^verbatim>\<open>config\<close>\<close>

record TypedJSON =
  serializer :: serializer
  deserializer :: deserializer
  globalKnownTypes :: "ctor nullable list"
  indent :: nat
  rootConstructor :: ctor
  errorHandler :: handler
  nameResolver :: "ctor \<Rightarrow> string"
  replacer :: "(string \<Rightarrow> val \<Rightarrow> val) option"

text \<open>\<open>a\<close> if it is set, else \<open>b\<close>: one key of \<^verbatim>\<open>{...b, ...a}\<close> or of \<^verbatim>\<open>Object.assign(b, a)\<close>.\<close>

fun orElse :: "'a option \<Rightarrow> 'a option \<Rightarrow> 'a option" where
  "orElse (Some x) _ = Some x"
| "orElse None b = b"

definition spread :: "settings \<Rightarrow> settings \<Rightarrow> settings" where
  "spread g s = \<lparr>
     s_errorHandler = orElse (s_errorHandler s) (s_errorHandler g),
     s_typeResolver = orElse (s_typeResolver s) (s_typeResolver g),
     s_nameResolver = orElse (s_nameResolver s) (s_nameResolver g),
     s_typeHintEmitter = orElse (s_typeHintEmitter s) (s_typeHintEmitter g),
     s_indent = orElse (s_indent s) (s_indent g),
     s_replacer = orElse (s_replacer s) (s_replacer g),
     s_knownTypes = orElse (s_knownTypes s) (s_knownTypes g) \<rparr>"

text \<open>
  The static field \<^verbatim>\<open>_globalConfig\<close> is the only state shared between converters. It is
  passed explicitly: \<open>None\<close> before the first call of \<^verbatim>\<open>setGlobalConfig\<close>. The first call
  stores the given object and a later call assigns the keys of the given object to it; that
  the stored object is the caller's own object is not modelled.
\<close>

definition setGlobalConfig :: "settings option \<Rightarrow> settings \<Rightarrow> settings option" where
  "setGlobalConfig globalConfig config =
     (case globalConfig of
        Some g \<Rightarrow> Some (spread g config)
      | None \<Rightarrow> Some config)"

text \<open>\<^verbatim>\<open>Array.from(new Set(xs))\<close>: the first occurrence of each element stays.\<close>

fun dedup :: "'a list \<Rightarrow> 'a list" where
  "dedup [] = []"
| "dedup (x # xs) = x # dedup (filter (\<lambda>y. y \<noteq> x) xs)"

fun knownTypes_warnings :: "nat \<Rightarrow> ctor nullable list \<Rightarrow> event list" where
  "knownTypes_warnings i [] = []"
| "knownTypes_warnings i (Defined _ # xs) = knownTypes_warnings (Suc i) xs"
| "knownTypes_warnings i (_ # xs) =
     WarningLogged (''TypedJSON.config: 'knownTypes' contains an undefined/null value (element ''
        @ show_nat i @ '').'')
     # knownTypes_warnings (Suc i) xs"

definition merge_settings :: "settings option \<Rightarrow> settings \<Rightarrow> settings" where
  "merge_settings globalConfig settings =
     (case globalConfig of
        None \<Rightarrow> settings
      | Some g \<Rightarrow>
          (let merged = spread g settings in
           (case (s_knownTypes merged, s_knownTypes g) of
              (Some kt, Some gkt) \<Rightarrow> merged \<lparr> s_knownTypes := Some (dedup (kt @ gkt)) \<rparr>
            | _ \<Rightarrow> merged)))"

definition config :: "settings option \<Rightarrow> TypedJSON \<Rightarrow> settings \<Rightarrow> event list \<times> TypedJSON" where
  "config globalConfig this settings0 =
     (let settings = merge_settings globalConfig settings0;
          this1 = (case s_errorHandler settings of
                     Some h \<Rightarrow> this \<lparr> errorHandler := Callback h,
                                      deserializer := (deserializer this) \<lparr> d_errorHandler := Callback h \<rparr>,
                                      serializer := (serializer this) \<lparr> z_errorHandler := Callback h \<rparr> \<rparr>
                   | None \<Rightarrow> this);
          this2 = (case s_replacer settings of
                     Some r \<Rightarrow> this1 \<lparr> replacer := Some r \<rparr>
                   | None \<Rightarrow> this1);
          this3 = (case s_typeResolver settings of
                     Some r \<Rightarrow> this2 \<lparr> deserializer := (deserializer this2) \<lparr> d_typeResolver := Some r \<rparr> \<rparr>
                   | None \<Rightarrow> this2);
          this4 = (case s_typeHintEmitter settings of
                     Some r \<Rightarrow> this3 \<lparr> serializer := (serializer this3) \<lparr> z_typeHintEmitter := Some r \<rparr> \<rparr>
                   | None \<Rightarrow> this3);
          this5 = (case s_indent settings of
                     Some n \<Rightarrow> (if n \<noteq> 0 then this4 \<lparr> indent := n \<rparr> else this4)
                   | None \<Rightarrow> this4);
          this6 = (case s_nameResolver settings of
                     Some r \<Rightarrow> this5 \<lparr> nameResolver := r,
                                      deserializer := (deserializer this5) \<lparr> d_nameResolver := Some r \<rparr> \<rparr>
                   | None \<Rightarrow> this5)
      in (case s_knownTypes settings of
            Some kt \<Rightarrow> (knownTypes_warnings 0 kt, this6 \<lparr> globalKnownTypes := kt \<rparr>)
          | None \<Rightarrow> ([], this6)))"

definition root_error :: error where
  "root_error = TypeError ''The TypedJSON root data type must have the @jsonObject decorator used.''"

text \<open>
  The converter after the field initializers and the assignments of the constructor,
  before \<^verbatim>\<open>config\<close>. The objects \<^verbatim>\<open>new Serializer()\<close> and \<^verbatim>\<open>new Deserializer()\<close> start
  with their own defaults, which the sources do not show: the logging handler, which the
  specification names as the default, and no resolver or emitter of the user.
\<close>

definition initial :: "collab \<Rightarrow> ctor \<Rightarrow> TypedJSON" where
  "initial K rootCtor = \<lparr>
     serializer = \<lparr> z_errorHandler = LogErrorHandler, z_typeHintEmitter = None \<rparr>,
     deserializer = \<lparr> d_errorHandler = LogErrorHandler, d_typeResolver = None, d_nameResolver = None \<rparr>,
     globalKnownTypes = [],
     indent = 0,
     rootConstructor = rootCtor,
     errorHandler = LogErrorHandler,
     nameResolver = nameof K,
     replacer = None \<rparr>"

text \<open>The test \<^verbatim>\<open>!rootMetadata || !rootMetadata.isExplicitlyMarked\<close>.\<close>

definition not_marked :: "JsonObjectMetadata option \<Rightarrow> bool" where
  "not_marked rootMetadata =
     (case rootMetadata of None \<Rightarrow> True | Some m \<Rightarrow> \<not> isExplicitlyMarked m)"

definition new_TypedJSON ::
  "collab \<Rightarrow> settings option \<Rightarrow> ctor \<Rightarrow> settings option \<Rightarrow> TypedJSON comp" where
  "new_TypedJSON K globalConfig rootCtor settings =
     (let rootMetadata = getFromConstructor K rootCtor in
      if not_marked rootMetadata then ([], Inl root_error)
      else
        (case settings of
           Some s \<Rightarrow> (case config globalConfig (initial K rootCtor) s of (es, this) \<Rightarrow> (es, Inr this))
         | None \<Rightarrow>
             (case globalConfig of
                Some _ \<Rightarrow> (case config globalConfig (initial K rootCtor) no_settings of
                             (es, this) \<Rightarrow> (es, Inr this))
              | None \<Rightarrow> ([], Inr (initial K rootCtor)))))"

subsection \<open>Language primitives used by the entry points\<close>

fun typeof :: "val \<Rightarrow> string" where
  "typeof Undefined = ''undefined''"
| "typeof (Bool _) = ''boolean''"
| "typeof (Num _) = ''number''"
| "typeof (Str _) = ''string''"
| "typeof _ = ''object''"

text \<open>
  \<^verbatim>\<open>object.constructor\<close>. Reading a property of \<^verbatim>\<open>undefined\<close> or \<^verbatim>\<open>null\<close> throws a
  \<^verbatim>\<open>TypeError\<close> (the message text is the engine's).
\<close>

fun constructor_of :: "val \<Rightarrow> error + ctor" where
  "constructor_of Undefined =
     Inl (TypeError ''Cannot read properties of undefined (reading 'constructor')'')"
| "constructor_of Null =
     Inl (TypeError ''Cannot read properties of null (reading 'constructor')'')"
| "constructor_of (Bool _) = Inr BooleanCtor"
| "constructor_of (Num _) = Inr NumberCtor"
| "constructor_of (Str _) = Inr StringCtor"
| "constructor_of (Arr _) = Inr ArrayCtor"
| "constructor_of (SetV _) = Inr SetCtor"
| "constructor_of (MapV _) = Inr MapCtor"
| "constructor_of (Obj c _) = Inr c"

text \<open>
  \<^verbatim>\<open>v instanceof C\<close>: false for every primitive; for an object, \<open>C\<close> is its constructor
  or one that its constructor extends.
\<close>

fun instanceof :: "(ctor \<Rightarrow> ctor \<Rightarrow> bool) \<Rightarrow> val \<Rightarrow> ctor \<Rightarrow> bool" where
  "instanceof ext (Arr _) C = (C = ArrayCtor \<or> ext ArrayCtor C)"
| "instanceof ext (SetV _) C = (C = SetCtor \<or> ext SetCtor C)"
| "instanceof ext (MapV _) C = (C = MapCtor \<or> ext MapCtor C)"
| "instanceof ext (Obj c _) C = (c = C \<or> ext c C)"
| "instanceof ext _ C = False"

fun isArray :: "val \<Rightarrow> bool" where
  "isArray (Arr _) = True"
| "isArray _ = False"

text \<open>
  \<^verbatim>\<open>new Array((dimensions - 1) || 0).fill(Array).concat(rootConstructor)\<close>, with the
  default \<^verbatim>\<open>dimensions = 1\<close>. \<^verbatim>\<open>new Array(n)\<close> throws a \<^verbatim>\<open>RangeError\<close> unless
  \<open>0 \<le> n < 2^32\<close>.
\<close>

definition elementConstructorArray :: "int option \<Rightarrow> ctor \<Rightarrow> error + ctor list" where
  "elementConstructorArray dimensions rootCtor =
     (let d = (case dimensions of None \<Rightarrow> 1 | Some d \<Rightarrow> d);
          n = d - 1
      in if n < 0 \<or> 4294967295 < n then Inl (RangeError ''Invalid array length'')
         else Inr (replicate (nat n) ArrayCtor @ [rootCtor]))"

definition lift :: "error + 'a \<Rightarrow> 'a comp" where
  "lift r = ([], r)"

definition quoted :: "string \<Rightarrow> string" where
  "quoted s = [CHR 0x27] @ s @ [CHR 0x27]"

subsection \<open>The conversion entry points of \<^verbatim>\<open>TypedJSON\<close>\<close>

text \<open>The errors that the entry points create themselves.\<close>

definition array_expected :: "val \<Rightarrow> error" where
  "array_expected object =
     TypeError (''Expected 'json' to define an Array, but got '' @ typeof object @ ''.'')"

definition set_expected :: "val \<Rightarrow> error" where
  "set_expected object =
     TypeError (''Expected 'json' to define a Set (using an Array), but got '' @ typeof object @ ''.'')"

definition type_expected :: "collab \<Rightarrow> ctor \<Rightarrow> ctor \<Rightarrow> error" where
  "type_expected K rootCtor c =
     TypeError (''Expected object type to be '' @ quoted (nameof K rootCtor)
                  @ '', got '' @ quoted (nameof K c) @ ''.'')"

text \<open>The handler returns normally when it is given \<open>e\<close>.\<close>

definition returns :: "handler \<Rightarrow> error \<Rightarrow> bool" where
  "returns h e = (snd (invoke h e) = Inr ())"

definition mapKnownTypes :: "TypedJSON \<Rightarrow> ctor nullable list \<Rightarrow> knownTypesMap" where
  "mapKnownTypes this constructors =
     fold (\<lambda>c m. map_set (nameResolver this c) c m) (defined_values constructors) []"

text \<open>\<^verbatim>\<open>rootMetadata.knownTypes\<close>, and nothing when there is no root metadata.\<close>

definition root_knownTypes :: "collab \<Rightarrow> TypedJSON \<Rightarrow> ctor list" where
  "root_knownTypes K this =
     (case getFromConstructor K (rootConstructor this) of Some md \<Rightarrow> knownTypes md | None \<Rightarrow> [])"

text \<open>The table that \<^verbatim>\<open>parse\<close> builds before it calls the deserializer.\<close>

definition parse_knownTypes :: "collab \<Rightarrow> TypedJSON \<Rightarrow> knownTypesMap" where
  "parse_knownTypes K this =
     (let rootMetadata = getFromConstructor K (rootConstructor this);
          knownTypes0 = fold (\<lambda>knownTypeCtor m. map_set (nameResolver this knownTypeCtor) knownTypeCtor m)
                          (defined_values (globalKnownTypes this)) []
      in (case rootMetadata of
            Some md \<Rightarrow> fold (\<lambda>knownTypeCtor m. map_set (nameResolver this knownTypeCtor) knownTypeCtor m)
                         (knownTypes md) knownTypes0
          | None \<Rightarrow> knownTypes0))"

text \<open>The \<^verbatim>\<open>typeInfo\<close> that \<^verbatim>\<open>parse\<close> passes to the deserializer.\<close>

definition parse_typeInfo :: "collab \<Rightarrow> TypedJSON \<Rightarrow> typeInfo" where
  "parse_typeInfo K this =
     \<lparr> selfConstructor = rootConstructor this, elementConstructor = None,
       ti_knownTypes = parse_knownTypes K this, keyConstructor = None \<rparr>"

text \<open>
  The body of the \<^verbatim>\<open>try\<close> block of \<^verbatim>\<open>parse\<close>:
  \<^verbatim>\<open>this.deserializer.convertSingleValue(JSON.parse(json), {...})\<close>.
\<close>

definition parse_body :: "collab \<Rightarrow> TypedJSON \<Rightarrow> string \<Rightarrow> val comp" where
  "parse_body K this json =
     bind (lift (JSON_parse K json)) (\<lambda>object.
       des_convertSingleValue K (deserializer this) object (parse_typeInfo K this))"

text \<open>
  \<^verbatim>\<open>try { result = ... } catch (e) { this.errorHandler(e); } return result;\<close>
  When the body throws, \<^verbatim>\<open>result\<close> was never assigned: the value is \<^verbatim>\<open>undefined\<close>.
\<close>

definition parse :: "collab \<Rightarrow> TypedJSON \<Rightarrow> string \<Rightarrow> val comp" where
  "parse K this json =
     (case parse_body K this json of
        (es, Inr result) \<Rightarrow> (es, Inr result)
      | (es, Inl e) \<Rightarrow>
          (case invoke (errorHandler this) e of
             (es', Inl e') \<Rightarrow> (es @ es', Inl e')
           | (es', Inr _) \<Rightarrow> (es @ es', Inr Undefined)))"

definition parseAsArray :: "collab \<Rightarrow> TypedJSON \<Rightarrow> string \<Rightarrow> int option \<Rightarrow> val comp" where
  "parseAsArray K this json dimensions =
     bind (lift (JSON_parse K json)) (\<lambda>object.
       if isArray object then
         bind (lift (elementConstructorArray dimensions (rootConstructor this))) (\<lambda>ecs.
           des_convertAsArray K (deserializer this) object
             \<lparr> selfConstructor = ArrayCtor, elementConstructor = Some ecs,
               ti_knownTypes = mapKnownTypes this (globalKnownTypes this), keyConstructor = None \<rparr>)
       else
         bind (invoke (errorHandler this) (array_expected object))
           (\<lambda>_. ([], Inr (Arr []))))"

definition parseAsSet :: "collab \<Rightarrow> TypedJSON \<Rightarrow> string \<Rightarrow> val comp" where
  "parseAsSet K this json =
     bind (lift (JSON_parse K json)) (\<lambda>object.
       if isArray object then
         des_convertAsSet K (deserializer this) object
           \<lparr> selfConstructor = ArrayCtor, elementConstructor = Some [rootConstructor this],
             ti_knownTypes = mapKnownTypes this (globalKnownTypes this), keyConstructor = None \<rparr>
       else
         bind (invoke (errorHandler this) (set_expected object))
           (\<lambda>_. ([], Inr (SetV []))))"

definition parseAsMap :: "collab \<Rightarrow> TypedJSON \<Rightarrow> string \<Rightarrow> ctor \<Rightarrow> val comp" where
  "parseAsMap K this json keyCtor =
     bind (lift (JSON_parse K json)) (\<lambda>object.
       if isArray object then
         des_convertAsMap K (deserializer this) object
           \<lparr> selfConstructor = ArrayCtor, elementConstructor = Some [rootConstructor this],
             ti_knownTypes = mapKnownTypes this (globalKnownTypes this), keyConstructor = Some keyCtor \<rparr>
       else
         bind (invoke (errorHandler this) (set_expected object))
           (\<lambda>_. ([], Inr (MapV []))))"

text \<open>
  \<^verbatim>\<open>stringify\<close>. The argument of \<^verbatim>\<open>this.errorHandler(TypeError(`...`))\<close> is evaluated
  before the handler is called, and it reads \<^verbatim>\<open>object.constructor\<close>. The body of the
  \<^verbatim>\<open>try\<close> block is the call of the serializer followed by \<^verbatim>\<open>JSON.stringify\<close>.
\<close>

definition stringify_body :: "collab \<Rightarrow> TypedJSON \<Rightarrow> val \<Rightarrow> val comp" where
  "stringify_body K this object =
     bind (ser_convertSingleValue K (serializer this) object (rootConstructor this))
       (\<lambda>serializedObject.
          lift (JSON_stringify K serializedObject (replacer this) (indent this)))"

definition stringify :: "collab \<Rightarrow> TypedJSON \<Rightarrow> val \<Rightarrow> val comp" where
  "stringify K this object =
     (if \<not> instanceof (extends K) object (rootConstructor this) then
        bind (lift (constructor_of object)) (\<lambda>c.
          bind (invoke (errorHandler this) (type_expected K (rootConstructor this) c))
            (\<lambda>_. ([], Inr Undefined)))
      else
        (case stringify_body K this object of
           (es, Inr result) \<Rightarrow> (es, Inr result)
         | (es, Inl e) \<Rightarrow>
             (case invoke (errorHandler this) e of
                (es', Inl e') \<Rightarrow> (es @ es', Inl e')
              | (es', Inr _) \<Rightarrow> (es @ es', Inr (Str [])))))"

definition stringifyAsArray :: "collab \<Rightarrow> TypedJSON \<Rightarrow> val \<Rightarrow> int option \<Rightarrow> val comp" where
  "stringifyAsArray K this object dimensions =
     bind (lift (elementConstructorArray dimensions (rootConstructor this))) (\<lambda>ecs.
       bind (ser_convertAsArray K (serializer this) object ecs) (\<lambda>plain.
         lift (JSON_stringify K plain (replacer this) (indent this))))"

definition stringifyAsSet :: "collab \<Rightarrow> TypedJSON \<Rightarrow> val \<Rightarrow> val comp" where
  "stringifyAsSet K this object =
     bind (ser_convertAsSet K (serializer this) object (rootConstructor this)) (\<lambda>plain.
       lift (JSON_stringify K plain (replacer this) (indent this)))"

definition stringifyAsMap :: "collab \<Rightarrow> TypedJSON \<Rightarrow> val \<Rightarrow> ctor \<Rightarrow> val comp" where
  "stringifyAsMap K this object keyCtor =
     bind (ser_convertAsMap K (serializer this) object keyCtor (rootConstructor this)) (\<lambda>plain.
       lift (JSON_stringify K plain (replacer this) (indent this)))"

subsection \<open>The static entry points: construct a converter, then convert\<close>

definition static_parse ::
  "collab \<Rightarrow> settings option \<Rightarrow> string \<Rightarrow> ctor \<Rightarrow> settings option \<Rightarrow> val comp" where
  "static_parse K globalConfig json rootType settings =
     bind (new_TypedJSON K globalConfig rootType settings) (\<lambda>this. parse K this json)"

definition static_parseAsArray ::
  "collab \<Rightarrow> settings option \<Rightarrow> string \<Rightarrow> ctor \<Rightarrow> settings option \<Rightarrow> val comp" where
  "static_parseAsArray K globalConfig json elementType0 settings =
     bind (new_TypedJSON K globalConfig elementType0 settings) (\<lambda>this. parseAsArray K this json None)"

definition static_parseAsSet ::
  "collab \<Rightarrow> settings option \<Rightarrow> string \<Rightarrow> ctor \<Rightarrow> settings option \<Rightarrow> val comp" where
  "static_parseAsSet K globalConfig json elementType0 settings =
     bind (new_TypedJSON K globalConfig elementType0 settings) (\<lambda>this. parseAsSet K this json)"

definition static_parseAsMap ::
  "collab \<Rightarrow> settings option \<Rightarrow> string \<Rightarrow> ctor \<Rightarrow> ctor \<Rightarrow> settings option \<Rightarrow> val comp" where
  "static_parseAsMap K globalConfig json keyType0 valueType settings =
     bind (new_TypedJSON K globalConfig valueType settings) (\<lambda>this. parseAsMap K this json keyType0)"

definition static_stringify ::
  "collab \<Rightarrow> settings option \<Rightarrow> val \<Rightarrow> ctor \<Rightarrow> settings option \<Rightarrow> val comp" where
  "static_stringify K globalConfig object rootType settings =
     bind (new_TypedJSON K globalConfig rootType settings) (\<lambda>this. stringify K this object)"

definition static_stringifyAsArray ::
  "collab \<Rightarrow> settings option \<Rightarrow> val \<Rightarrow> ctor \<Rightarrow> int option \<Rightarrow> settings option \<Rightarrow> val comp" where
  "static_stringifyAsArray K globalConfig object elementType0 dimensions settings =
     bind (new_TypedJSON K globalConfig elementType0 settings)
       (\<lambda>this. stringifyAsArray K this object
                 (Some (case dimensions of None \<Rightarrow> 1 | Some d \<Rightarrow> d)))"

definition static_stringifyAsSet ::
  "collab \<Rightarrow> settings option \<Rightarrow> val \<Rightarrow> ctor \<Rightarrow> settings option \<Rightarrow> val comp" where
  "static_stringifyAsSet K globalConfig object elementType0 settings =
     bind (new_TypedJSON K globalConfig elementType0 settings) (\<lambda>this. stringifyAsSet K this object)"

definition static_stringifyAsMap ::
  "collab \<Rightarrow> settings option \<Rightarrow> val \<Rightarrow> ctor \<Rightarrow> ctor \<Rightarrow> settings option \<Rightarrow> val comp" where
  "static_stringifyAsMap K globalConfig object keyCtor valueCtor settings =
     bind (new_TypedJSON K globalConfig valueCtor settings)
       (\<lambda>this. stringifyAsMap K this object keyCtor)"

section \<open>The member decorators\<close>

subsection \<open>\<^verbatim>\<open>jsonMember\<close>\<close>

text \<open>
  \<^verbatim>\<open>IJsonMemberOptions\<close>. For \<open>o_constructor\<close>, \<open>None\<close> is an options object without
  an own key \<^verbatim>\<open>constructor\<close>; \<open>Some IsUndefined\<close> is the key set to \<^verbatim>\<open>undefined\<close>.
\<close>

record IJsonMemberOptions =
  o_constructor :: "ctor nullable option"
  o_isRequired :: "bool option"
  o_emitDefaultValue :: "bool option"

definition empty_options :: IJsonMemberOptions where
  "empty_options = \<lparr> o_constructor = None, o_isRequired = None, o_emitDefaultValue = None \<rparr>"

text \<open>
  What the decorators take from their surroundings: whether ReflectDecorators is loaded,
  the \<^verbatim>\<open>design:type\<close> metadata of a property, and the helpers \<^verbatim>\<open>isSubtypeOf\<close> and
  \<^verbatim>\<open>nameof\<close>. Property keys are strings.
\<close>

record reflection =
  isReflectMetadataSupported :: bool
  designType :: "ctor \<Rightarrow> string \<Rightarrow> ctor option"
  isSubtypeOf :: "ctor \<Rightarrow> ctor option \<Rightarrow> bool"
  r_nameof :: "ctor \<Rightarrow> string"

text \<open>
  Modelled from the spec: \<^verbatim>\<open>Helpers.isValueDefined\<close> is missing from the sources, and the
  specification does not describe it; it is taken to be what its name and its use say: the
  value is neither \<^verbatim>\<open>undefined\<close> nor \<^verbatim>\<open>null\<close>.
\<close>

fun isValueDefined :: "'a nullable \<Rightarrow> bool" where
  "isValueDefined (Defined _) = True"
| "isValueDefined _ = False"

text \<open>
  Reading \<^verbatim>\<open>options.constructor\<close>: the own key if there is one, else the inherited
  \<^verbatim>\<open>Object.prototype.constructor\<close>, which is \<^verbatim>\<open>Object\<close>.
\<close>

definition options_constructor :: "IJsonMemberOptions \<Rightarrow> ctor nullable" where
  "options_constructor options =
     (case o_constructor options of Some c \<Rightarrow> c | None \<Rightarrow> Defined ObjectCtor)"

text \<open>
  \<^verbatim>\<open>typeof options.hasOwnProperty("constructor")\<close> is the type name of a boolean, and a
  non-empty string is truthy.
\<close>

definition typeof_hasOwnProperty :: "IJsonMemberOptions \<Rightarrow> string" where
  "typeof_hasOwnProperty options = ''boolean''"

definition truthy_string :: "string \<Rightarrow> bool" where
  "truthy_string s = (s \<noteq> [])"

definition jsonMember_name :: "reflection \<Rightarrow> ctor \<Rightarrow> string \<Rightarrow> string" where
  "jsonMember_name R target propKey = ''@jsonMember on '' @ r_nameof R target @ ''.'' @ propKey"

definition isSpecialPropertyType :: "ctor \<Rightarrow> string \<Rightarrow> event list \<times> bool" where
  "isSpecialPropertyType propCtor decoratorName =
     (if propCtor = ArrayCtor then
        ([MessageLogged (decoratorName
            @ '': property is an Array. Use the jsonArrayMember decorator to serialize this property.'')],
         True)
      else if propCtor = SetCtor then
        ([MessageLogged (decoratorName
            @ '': property is a Set. Use the jsonSetMember decorator to serialize this property.'')],
         True)
      else if propCtor = MapCtor then
        ([MessageLogged (decoratorName
            @ '': property is a Map. Use the jsonMapMember decorator to serialize this property.'')],
         True)
      else ([], False))"

text \<open>The branch for \<^verbatim>\<open>@jsonMember\<close> used directly on a property.\<close>

definition jsonMember_direct :: "reflection \<Rightarrow> ctor \<Rightarrow> string \<Rightarrow> event list" where
  "jsonMember_direct R target propKey =
     (let decoratorName = jsonMember_name R target propKey in
      if isReflectMetadataSupported R then
        (case designType R target propKey of
           None \<Rightarrow> [MessageLogged (decoratorName
                       @ '': could not resolve detected property constructor at runtime.'')]
         | Some reflectPropCtor \<Rightarrow>
             (case isSpecialPropertyType reflectPropCtor decoratorName of
                (es, True) \<Rightarrow> es
              | (es, False) \<Rightarrow>
                  es @ [Injected target propKey
                          \<lparr> ctor = reflectPropCtor, elementType = None, emitDefaultValue = None,
                            isRequired = None, key = propKey, name = propKey \<rparr>]))
      else [MessageLogged (decoratorName
              @ '': ReflectDecorators is required if no 'constructor' option is specified.'')])"

text \<open>
  The decorator that \<^verbatim>\<open>jsonMember(options)\<close> returns. The first part finds
  \<^verbatim>\<open>propCtor\<close> (\<open>Inr\<close>) or returns early (\<open>Inl\<close>); both carry the console output.
\<close>

definition jsonMember_propCtor ::
  "reflection \<Rightarrow> IJsonMemberOptions \<Rightarrow> ctor \<Rightarrow> string \<Rightarrow> event list \<times> (unit + ctor)" where
  "jsonMember_propCtor R options target propKey =
     (let decoratorName = jsonMember_name R target propKey in
      if truthy_string (typeof_hasOwnProperty options) then
        (case options_constructor options of
           Defined c \<Rightarrow>
             ((if isReflectMetadataSupported R \<and> \<not> isSubtypeOf R c (designType R target propKey)
               then [WarningLogged (decoratorName
                       @ '': detected property type does not match 'constructor' option.'')]
               else []),
              Inr c)
         | _ \<Rightarrow> ([MessageLogged (decoratorName
                      @ '': cannot resolve specified property constructor at runtime.'')],
                 Inl ()))
      else if isReflectMetadataSupported R then
        (case designType R target propKey of
           None \<Rightarrow> ([MessageLogged (decoratorName
                        @ '': cannot resolve detected property constructor at runtime.'')],
                    Inl ())
         | Some c \<Rightarrow> ([], Inr c))
      else ([MessageLogged (decoratorName
               @ '': ReflectDecorators is required if no 'constructor' option is specified.'')],
            Inl ()))"

definition orFalse :: "bool option \<Rightarrow> bool" where
  "orFalse b = (case b of Some True \<Rightarrow> True | _ \<Rightarrow> False)"

definition jsonMember_factory ::
  "reflection \<Rightarrow> IJsonMemberOptions option \<Rightarrow> ctor \<Rightarrow> string \<Rightarrow> event list" where
  "jsonMember_factory R optionsOrTarget target propKey =
     (let options = (case optionsOrTarget of Some opts \<Rightarrow> opts | None \<Rightarrow> empty_options);
          decoratorName = jsonMember_name R target propKey
      in (case jsonMember_propCtor R options target propKey of
            (es, Inl _) \<Rightarrow> es
          | (es, Inr propCtor) \<Rightarrow>
              (case isSpecialPropertyType propCtor decoratorName of
                 (es', True) \<Rightarrow> es @ es'
               | (es', False) \<Rightarrow>
                   es @ es' @ [Injected target propKey
                     \<lparr> ctor = propCtor, elementType = None,
                       emitDefaultValue = Some (orFalse (o_emitDefaultValue options)),
                       isRequired = Some (orFalse (o_isRequired options)),
                       key = propKey, name = propKey \<rparr>])))"

text \<open>
  The two call signatures of \<^verbatim>\<open>jsonMember\<close>: with a target and a property key it acts
  at once; otherwise it returns the decorator, which is then applied to a target and a key.
\<close>

datatype jsonMember_use =
    Direct ctor string
  | WithOptions "IJsonMemberOptions option" ctor string

fun jsonMember :: "reflection \<Rightarrow> jsonMember_use \<Rightarrow> event list" where
  "jsonMember R (Direct target propKey) = jsonMember_direct R target propKey"
| "jsonMember R (WithOptions optionsOrTarget target propKey) =
     jsonMember_factory R optionsOrTarget target propKey"

subsection \<open>\<^verbatim>\<open>jsonSetMember\<close>\<close>

record IJsonSetMemberOptions =
  so_isRequired :: "bool option"
  so_emitDefaultValue :: "bool option"

definition jsonSetMember ::
  "reflection \<Rightarrow> ctor nullable \<Rightarrow> IJsonSetMemberOptions \<Rightarrow> ctor \<Rightarrow> string \<Rightarrow> event list" where
  "jsonSetMember R elementCtor options target propKey =
     (let decoratorName = ''@jsonSetMember on '' @ r_nameof R target @ ''.'' @ propKey in
      (case elementCtor of
         Defined ec \<Rightarrow>
           (if isReflectMetadataSupported R \<and> designType R target propKey \<noteq> Some SetCtor then
              [MessageLogged (decoratorName @ '': property is not a Set.'')]
            else
              [Injected target propKey
                 \<lparr> ctor = SetCtor, elementType = Some [ec],
                   emitDefaultValue = Some (orFalse (so_emitDefaultValue options)),
                   isRequired = Some (orFalse (so_isRequired options)),
                   key = propKey, name = propKey \<rparr>])
       | _ \<Rightarrow> [MessageLogged (decoratorName
                   @ '': could not resolve constructor of set elements at runtime.'')]))"

subsection \<open>What a decorator did\<close>

definition isContainerCtor :: "ctor \<Rightarrow> bool" where
  "isContainerCtor c = (c = ArrayCtor \<or> c = SetCtor \<or> c = MapCtor)"

definition injected :: "event \<Rightarrow> bool" where
  "injected ev = (case ev of Injected _ _ _ \<Rightarrow> True | _ \<Rightarrow> False)"

definition logged :: "event \<Rightarrow> bool" where
  "logged ev = (case ev of MessageLogged _ \<Rightarrow> True | _ \<Rightarrow> False)"

text \<open>
  The property constructor that \<^verbatim>\<open>jsonMember\<close> resolves, if it gets that far: the
  \<^verbatim>\<open>design:type\<close> of the property in the direct use, \<^verbatim>\<open>propCtor\<close> in the decorator
  that the factory returns.
\<close>

fun resolved_propCtor :: "reflection \<Rightarrow> jsonMember_use \<Rightarrow> ctor option" where
  "resolved_propCtor R (Direct target propKey) =
     (if isReflectMetadataSupported R then designType R target propKey else None)"
| "resolved_propCtor R (WithOptions optionsOrTarget target propKey) =
     (case snd (jsonMember_propCtor R
                  (case optionsOrTarget of Some opts \<Rightarrow> opts | None \<Rightarrow> empty_options)
                  target propKey) of
        Inr c \<Rightarrow> Some c
      | Inl _ \<Rightarrow> None)"


section \<open>The JSON text codec\<close>

text \<open>
  \<^verbatim>\<open>JSON.stringify\<close> and \<^verbatim>\<open>JSON.parse\<close> of the language, on the values of the model:
  numbers are integers, characters are bytes. A number with a fraction or an exponent and
  a \<^verbatim>\<open>\u\<close> escape beyond one byte are outside the model and are reported as such.
\<close>

subsection \<open>\<^verbatim>\<open>JSON.stringify\<close>\<close>

definition hex_digit :: "nat \<Rightarrow> char" where
  "hex_digit n = (if n < 10 then char_of (48 + n) else char_of (87 + n))"

definition quote_char :: "char \<Rightarrow> string" where
  "quote_char c =
     (if c = CHR 0x22 then [CHR 0x5C, CHR 0x22]
      else if c = CHR 0x5C then [CHR 0x5C, CHR 0x5C]
      else if c = CHR 0x08 then [CHR 0x5C, CHR ''b'']
      else if c = CHR 0x0C then [CHR 0x5C, CHR ''f'']
      else if c = CHR 0x0A then [CHR 0x5C, CHR ''n'']
      else if c = CHR 0x0D then [CHR 0x5C, CHR ''r'']
      else if c = CHR 0x09 then [CHR 0x5C, CHR ''t'']
      else if (of_char c :: nat) < 32 then
        [CHR 0x5C, CHR ''u'', CHR ''0'', CHR ''0'',
         hex_digit ((of_char c :: nat) div 16), hex_digit ((of_char c :: nat) mod 16)]
      else [c])"

definition quote_string :: "string \<Rightarrow> string" where
  "quote_string s = [CHR 0x22] @ concat (map quote_char s) @ [CHR 0x22]"

fun intercalate :: "string \<Rightarrow> string list \<Rightarrow> string" where
  "intercalate sep [] = []"
| "intercalate sep [x] = x"
| "intercalate sep (x # y # zs) = x @ sep @ intercalate sep (y # zs)"

fun sequence :: "(error + 'a) list \<Rightarrow> error + 'a list" where
  "sequence [] = Inr []"
| "sequence (Inl e # _) = Inl e"
| "sequence (Inr x # rs) = (case sequence rs of Inl e \<Rightarrow> Inl e | Inr xs \<Rightarrow> Inr (x # xs))"

definition wrap_items :: "string \<Rightarrow> string \<Rightarrow> char \<Rightarrow> char \<Rightarrow> string list \<Rightarrow> string" where
  "wrap_items gap stepback opening closing partial =
     (if partial = [] then [opening, closing]
      else if gap = [] then [opening] @ intercalate '','' partial @ [closing]
      else [opening, CHR 0x0A] @ stepback @ gap
           @ intercalate ([CHR '','', CHR 0x0A] @ stepback @ gap) partial
           @ [CHR 0x0A] @ stepback @ [closing])"

text \<open>
  The abstract operation SerializeJSONProperty. The first argument bounds the depth of
  the recursion: a replacer may return ever larger values, and then the engine ends the call
  with a \<^verbatim>\<open>RangeError\<close>. The result \<open>None\<close> is \<^verbatim>\<open>undefined\<close>: such a property is left
  out of an object and printed as \<^verbatim>\<open>null\<close> in an array. A \<^verbatim>\<open>Set\<close> or \<^verbatim>\<open>Map\<close> has no
  enumerable own property.
\<close>

fun js_serialize ::
  "nat \<Rightarrow> (string \<Rightarrow> val \<Rightarrow> val) option \<Rightarrow> string \<Rightarrow> string \<Rightarrow> string \<Rightarrow> val
     \<Rightarrow> error + string option" where
  "js_serialize 0 rep gap ind k v0 = Inl (RangeError ''Maximum call stack size exceeded'')"
| "js_serialize (Suc fuel) rep gap ind k v0 =
     (case (case rep of Some r \<Rightarrow> r k v0 | None \<Rightarrow> v0) of
        Undefined \<Rightarrow> Inr None
      | Null \<Rightarrow> Inr (Some ''null'')
      | Bool b \<Rightarrow> Inr (Some (if b then ''true'' else ''false''))
      | Num n \<Rightarrow> Inr (Some (show_int n))
      | Str s \<Rightarrow> Inr (Some (quote_string s))
      | Arr xs \<Rightarrow>
          (case sequence (map (\<lambda>(i, x). js_serialize fuel rep gap (ind @ gap) (show_nat i) x)
                            (zip [0 ..< length xs] xs)) of
             Inl e \<Rightarrow> Inl e
           | Inr partial \<Rightarrow>
               Inr (Some (wrap_items gap ind CHR ''['' CHR '']''
                            (map (\<lambda>p. case p of None \<Rightarrow> ''null'' | Some t \<Rightarrow> t) partial))))
      | SetV _ \<Rightarrow> Inr (Some ''{}'')
      | MapV _ \<Rightarrow> Inr (Some ''{}'')
      | Obj c fs \<Rightarrow>
          (case sequence (map (\<lambda>(p, x). js_serialize fuel rep gap (ind @ gap) p x) fs) of
             Inl e \<Rightarrow> Inl e
           | Inr partial \<Rightarrow>
               Inr (Some (wrap_items gap ind CHR ''{'' CHR ''}''
                            (concat (map (\<lambda>(p, t). case t of
                                            None \<Rightarrow> []
                                          | Some t' \<Rightarrow> [quote_string p @ '':''
                                                          @ (if gap = [] then [] else '' '') @ t'])
                                      (zip (map fst fs) partial)))))))"

definition call_stack_limit :: nat where
  "call_stack_limit = 10000"

text \<open>
  \<^verbatim>\<open>JSON.stringify(value, replacer, space)\<close> for a numeric \<^verbatim>\<open>space\<close>: the gap is at most
  ten spaces. Without a replacer the recursion is bounded by the size of the value.
\<close>

definition std_JSON_stringify ::
  "val \<Rightarrow> (string \<Rightarrow> val \<Rightarrow> val) option \<Rightarrow> nat \<Rightarrow> error + val" where
  "std_JSON_stringify v rep space =
     (case js_serialize (case rep of None \<Rightarrow> Suc (size v) | Some _ \<Rightarrow> call_stack_limit)
             rep (replicate (min space 10) CHR '' '') [] [] v of
        Inl e \<Rightarrow> Inl e
      | Inr None \<Rightarrow> Inr Undefined
      | Inr (Some t) \<Rightarrow> Inr (Str t))"

subsection \<open>\<^verbatim>\<open>JSON.parse\<close>\<close>

definition is_ws :: "char \<Rightarrow> bool" where
  "is_ws c = (c = CHR '' '' \<or> c = CHR 0x0A \<or> c = CHR 0x0D \<or> c = CHR 0x09)"

definition skip_ws :: "string \<Rightarrow> string" where
  "skip_ws s = dropWhile is_ws s"

definition is_digit :: "char \<Rightarrow> bool" where
  "is_digit c = (48 \<le> (of_char c :: nat) \<and> (of_char c :: nat) \<le> 57)"

definition digits_value :: "string \<Rightarrow> nat" where
  "digits_value ds = foldl (\<lambda>a c. 10 * a + ((of_char c :: nat) - 48)) 0 ds"

definition unexpected :: error where
  "unexpected = SyntaxError ''Unexpected token in JSON''"

definition unmodelled :: error where
  "unmodelled = Error ''JSON text outside the model''"

definition hex_value :: "char \<Rightarrow> nat option" where
  "hex_value c =
     (let n = (of_char c :: nat) in
      if 48 \<le> n \<and> n \<le> 57 then Some (n - 48)
      else if 97 \<le> n \<and> n \<le> 102 then Some (n - 87)
      else if 65 \<le> n \<and> n \<le> 70 then Some (n - 55)
      else None)"

text \<open>The characters of a string literal after the opening quote, up to the closing one.\<close>

fun parse_chars :: "string \<Rightarrow> error + (string \<times> string)" where
  "parse_chars [] = Inl unexpected"
| "parse_chars (c # r) =
     (if c = CHR 0x22 then Inr ([], r)
      else if (of_char c :: nat) < 32 then Inl unexpected
      else if c = CHR 0x5C then
        (case r of
           [] \<Rightarrow> Inl unexpected
         | e # r' \<Rightarrow>
             (if e = CHR ''u'' then
                (case r' of
                   h1 # h2 # h3 # h4 # r'' \<Rightarrow>
                     (case (hex_value h1, hex_value h2, hex_value h3, hex_value h4) of
                        (Some a, Some b, Some c', Some d) \<Rightarrow>
                          (if a = 0 \<and> b = 0 then
                             (case parse_chars r'' of
                                Inl x \<Rightarrow> Inl x
                              | Inr (s, rest) \<Rightarrow> Inr (char_of (16 * c' + d) # s, rest))
                           else Inl unmodelled)
                      | _ \<Rightarrow> Inl unexpected)
                 | _ \<Rightarrow> Inl unexpected)
              else
                (case (if e = CHR 0x22 then Some (CHR 0x22)
                       else if e = CHR 0x5C then Some (CHR 0x5C)
                       else if e = CHR ''/'' then Some (CHR ''/'')
                       else if e = CHR ''b'' then Some (CHR 0x08)
                       else if e = CHR ''f'' then Some (CHR 0x0C)
                       else if e = CHR ''n'' then Some (CHR 0x0A)
                       else if e = CHR ''r'' then Some (CHR 0x0D)
                       else if e = CHR ''t'' then Some (CHR 0x09)
                       else None) of
                   None \<Rightarrow> Inl unexpected
                 | Some x \<Rightarrow>
                     (case parse_chars r' of
                        Inl y \<Rightarrow> Inl y
                      | Inr (s, rest) \<Rightarrow> Inr (x # s, rest)))))
      else
        (case parse_chars r of
           Inl y \<Rightarrow> Inl y
         | Inr (s, rest) \<Rightarrow> Inr (c # s, rest)))"

text \<open>
  A number: an optional minus sign, then \<^verbatim>\<open>0\<close> or digits that do not start with
  \<^verbatim>\<open>0\<close>. A fraction or an exponent is outside the model.
\<close>

definition parse_number :: "string \<Rightarrow> error + (val \<times> string)" where
  "parse_number s =
     (let neg = (case s of c # _ \<Rightarrow> c = CHR ''-'' | [] \<Rightarrow> False);
          s1 = (if neg then tl s else s);
          ds = takeWhile is_digit s1;
          rest = dropWhile is_digit s1
      in if ds = [] then Inl unexpected
         else if hd ds = CHR ''0'' \<and> length ds > 1 then Inl unexpected
         else if (case rest of c # _ \<Rightarrow> c = CHR ''.'' \<or> c = CHR ''e'' \<or> c = CHR ''E'' | [] \<Rightarrow> False)
           then Inl unmodelled
         else Inr (Num (if neg then - int (digits_value ds) else int (digits_value ds)), rest))"

definition parse_literal :: "string \<Rightarrow> error + (val \<times> string)" where
  "parse_literal s =
     (if take 4 s = ''true'' then Inr (Bool True, drop 4 s)
      else if take 5 s = ''false'' then Inr (Bool False, drop 5 s)
      else if take 4 s = ''null'' then Inr (Null, drop 4 s)
      else parse_number s)"

text \<open>
  A value, the elements of an array after its opening bracket, and the members of an
  object after its opening brace. Every call takes one unit of the first argument, which
  bounds the depth of the recursion; \<open>std_JSON_parse\<close> supplies twice the length of the
  text, and two.
\<close>

fun parse_value :: "nat \<Rightarrow> string \<Rightarrow> error + (val \<times> string)"
  and parse_elements :: "nat \<Rightarrow> string \<Rightarrow> error + (val list \<times> string)"
  and parse_members :: "nat \<Rightarrow> string \<Rightarrow> error + ((string \<times> val) list \<times> string)" where
  "parse_value 0 s = Inl unexpected"
| "parse_value (Suc fuel) s =
     (case skip_ws s of
        [] \<Rightarrow> Inl unexpected
      | c # r \<Rightarrow>
          (if c = CHR 0x22 then
             (case parse_chars r of Inl e \<Rightarrow> Inl e | Inr (t, rest) \<Rightarrow> Inr (Str t, rest))
           else if c = CHR ''['' then
             (case skip_ws r of
                [] \<Rightarrow> Inl unexpected
              | c' # r' \<Rightarrow>
                  (if c' = CHR '']'' then Inr (Arr [], r')
                   else (case parse_elements fuel r of
                           Inl e \<Rightarrow> Inl e
                         | Inr (vs, rest) \<Rightarrow> Inr (Arr vs, rest))))
           else if c = CHR ''{'' then
             (case skip_ws r of
                [] \<Rightarrow> Inl unexpected
              | c' # r' \<Rightarrow>
                  (if c' = CHR ''}'' then Inr (Obj ObjectCtor [], r')
                   else (case parse_members fuel r of
                           Inl e \<Rightarrow> Inl e
                         | Inr (ms, rest) \<Rightarrow>
                             Inr (Obj ObjectCtor (fold (\<lambda>(p, x). AList.update p x) ms []), rest))))
           else parse_literal (c # r)))"
| "parse_elements 0 s = Inl unexpected"
| "parse_elements (Suc fuel) s =
     (case parse_value fuel s of
        Inl e \<Rightarrow> Inl e
      | Inr (v, r) \<Rightarrow>
          (case skip_ws r of
             [] \<Rightarrow> Inl unexpected
           | c # r' \<Rightarrow>
               (if c = CHR '','' then
                  (case parse_elements fuel r' of
                     Inl e \<Rightarrow> Inl e
                   | Inr (vs, rest) \<Rightarrow> Inr (v # vs, rest))
                else if c = CHR '']'' then Inr ([v], r')
                else Inl unexpected)))"
| "parse_members 0 s = Inl unexpected"
| "parse_members (Suc fuel) s =
     (case skip_ws s of
        [] \<Rightarrow> Inl unexpected
      | q # r \<Rightarrow>
          (if q \<noteq> CHR 0x22 then Inl unexpected
           else
             (case parse_chars r of
                Inl e \<Rightarrow> Inl e
              | Inr (p, r1) \<Rightarrow>
                  (case skip_ws r1 of
                     [] \<Rightarrow> Inl unexpected
                   | colon # r2 \<Rightarrow>
                       (if colon \<noteq> CHR '':'' then Inl unexpected
                        else
                          (case parse_value fuel r2 of
                             Inl e \<Rightarrow> Inl e
                           | Inr (v, r3) \<Rightarrow>
                               (case skip_ws r3 of
                                  [] \<Rightarrow> Inl unexpected
                                | c # r4 \<Rightarrow>
                                    (if c = CHR '','' then
                                       (case parse_members fuel r4 of
                                          Inl e \<Rightarrow> Inl e
                                        | Inr (ms, rest) \<Rightarrow> Inr ((p, v) # ms, rest))
                                     else if c = CHR ''}'' then Inr ([(p, v)], r4)
                                     else Inl unexpected))))))))"

definition std_JSON_parse :: "string \<Rightarrow> error + val" where
  "std_JSON_parse text =
     (case parse_value (2 * length text + 2) text of
        Inl e \<Rightarrow> Inl e
      | Inr (v, rest) \<Rightarrow> (if skip_ws rest = [] then Inr v else Inl unexpected))"

section \<open>The metadata registry and the converter, after the specification\<close>

text \<open>
  Modelled from the spec: the modules \<^verbatim>\<open>typedjson/metadata\<close>, \<^verbatim>\<open>typedjson/serializer\<close>
  and \<^verbatim>\<open>typedjson/deserializer\<close> are missing from the sources. The definitions of this
  section follow sections 3, 4 and 7 of the specification. Where the specification names no
  behaviour (a property absent from the text is marked below), the choice made is stated.
\<close>

subsection \<open>Data model (section 3)\<close>

text \<open>
  Modelled from the spec: the type tag, the member descriptor and the class descriptor of
  section 3, which stand for the missing classes of \<^verbatim>\<open>typedjson/metadata\<close>. The members of
  a class are listed in declaration order. The registry looks a descriptor up by constructor.
\<close>

datatype typeTag =
    Scalar ctor
  | Object ctor
  | ArrayT typeTag nat
  | SetT typeTag
  | MapT typeTag typeTag

record memberDescriptor =
  m_key :: string
  serializedName :: string
  typeTag :: typeTag
  m_isRequired :: bool
  m_emitDefaultValue :: bool

record classDescriptor =
  isExplicitlyRegistered :: bool
  members :: "memberDescriptor list"
  knownSubtypes :: "ctor list"

type_synonym registry = "ctor \<Rightarrow> classDescriptor option"

text \<open>
  Modelled from the spec: how the constructor arguments of the missing entry points name a
  type tag. The scalars of the model are numbers, strings and booleans. A constructor stands
  for the scalar tag if it is one of their constructors, and for an object tag otherwise;
  an element constructor list \<open>[Array, ..., Array, C]\<close> stands for an array tag whose depth
  is the length of the list.
\<close>

definition isScalarCtor :: "ctor \<Rightarrow> bool" where
  "isScalarCtor c = (c = NumberCtor \<or> c = StringCtor \<or> c = BooleanCtor)"

definition tagOfCtor :: "ctor \<Rightarrow> typeTag" where
  "tagOfCtor c = (if isScalarCtor c then Scalar c else Object c)"

text \<open>
  Modelled from the spec: the tag of the elements of an array. A depth above one recurses
  into nested arrays with the depth decremented; at depth one the elements have the element
  tag itself.
\<close>

definition elementTag :: "typeTag \<Rightarrow> nat \<Rightarrow> typeTag" where
  "elementTag e depth = (if depth \<le> 1 then e else ArrayT e (depth - 1))"

subsection \<open>Type resolution protocol (section 4.2)\<close>

definition typeHintKey :: string where
  "typeHintKey = ''__type''"

text \<open>
  Modelled from the spec: the default \<open>resolveConstructor\<close>. No hint: the expected
  constructor. A hint: the constructor of that name in the known-types table, and an error
  if the table has none. A hint that is not a string names no constructor (the specification
  is silent on it).
\<close>

definition resolveConstructor :: "(string \<times> val) list \<Rightarrow> knownTypesMap \<Rightarrow> ctor \<Rightarrow> error + ctor" where
  "resolveConstructor plainObject table expected =
     (case map_of plainObject typeHintKey of
        None \<Rightarrow> Inr expected
      | Some (Str n) \<Rightarrow>
          (case map_of table n of
             Some c \<Rightarrow> Inr c
           | None \<Rightarrow> Inl (Conversion UnresolvableConstructor n))
      | Some _ \<Rightarrow> Inl (Conversion UnresolvableConstructor []))"

text \<open>
  Modelled from the spec: the resolver is overridable. A resolver given in the settings
  takes the plain object and the table and returns a constructor; when it returns none the
  expected constructor stays (the specification defines the default only).
\<close>

definition resolve ::
  "(val \<Rightarrow> knownTypesMap \<Rightarrow> ctor option) option \<Rightarrow> (string \<times> val) list \<Rightarrow> knownTypesMap
     \<Rightarrow> ctor \<Rightarrow> error + ctor" where
  "resolve custom plainObject table expected =
     (case custom of
        None \<Rightarrow> resolveConstructor plainObject table expected
      | Some r \<Rightarrow>
          (case r (Obj ObjectCtor plainObject) table of
             Some c \<Rightarrow> Inr c
           | None \<Rightarrow> Inr expected))"

text \<open>
  Modelled from the spec: the default \<open>emitTypeHint\<close> writes the name of the runtime
  constructor under the reserved key when that constructor differs from the expected one,
  and nothing otherwise.
\<close>

definition emitTypeHint ::
  "(ctor \<Rightarrow> string) \<Rightarrow> (string \<times> val) list \<Rightarrow> ctor \<Rightarrow> ctor \<Rightarrow> (string \<times> val) list" where
  "emitTypeHint nm target runtime expected =
     (if runtime \<noteq> expected then AList.update typeHintKey (Str (nm runtime)) target
      else target)"

text \<open>
  Modelled from the spec: the emitter is overridable. An emitter given in the settings
  takes the plain object, the source instance and the expected constructor, and what it
  returns is the plain object after its writes.
\<close>

definition emit ::
  "(val \<Rightarrow> val \<Rightarrow> ctor \<Rightarrow> val) option \<Rightarrow> (ctor \<Rightarrow> string) \<Rightarrow> (string \<times> val) list
     \<Rightarrow> val \<Rightarrow> ctor \<Rightarrow> ctor \<Rightarrow> val" where
  "emit custom nm target source runtime expected =
     (case custom of
        None \<Rightarrow> Obj ObjectCtor (emitTypeHint nm target runtime expected)
      | Some f \<Rightarrow> f (Obj ObjectCtor target) source expected)"

subsection \<open>Serializer (section 4.3)\<close>

text \<open>
  Modelled from the spec: the result of a conversion of the missing \<^verbatim>\<open>Serializer\<close> and
  \<^verbatim>\<open>Deserializer\<close>. A conversion returns the errors it met, in order, and its best-effort
  result; the result \<open>Undefined\<close> stands for nothing (a field that is left out, the
  placeholder of a failed element). The errors are reported to the handler afterwards, see
  \<open>deliver\<close>.
\<close>

type_synonym conv = "error list \<times> val"

definition mismatch :: "string \<Rightarrow> conv" where
  "mismatch what = ([Conversion TypeShapeMismatch what], Undefined)"

text \<open>
  Modelled from the spec: the value written for an unset field with \<open>emitDefaultValue\<close>.
  The specification names \<open>0\<close>, the empty string and \<open>false\<close>; the empty array for a
  container and \<open>null\<close> for an object are the choice of this model.
\<close>

fun default_value :: "typeTag \<Rightarrow> val" where
  "default_value (Scalar c) =
     (if c = NumberCtor then Num 0
      else if c = StringCtor then Str []
      else if c = BooleanCtor then Bool False
      else Null)"
| "default_value (Object c) = Null"
| "default_value (ArrayT e d) = Arr []"
| "default_value (SetT e) = Arr []"
| "default_value (MapT k v) = Arr []"

text \<open>A value that is not an object: it is compared by value.\<close>

fun isPrimitive :: "val \<Rightarrow> bool" where
  "isPrimitive (Arr _) = False"
| "isPrimitive (SetV _) = False"
| "isPrimitive (MapV _) = False"
| "isPrimitive (Obj _ _) = False"
| "isPrimitive _ = True"

definition errors_of :: "conv list \<Rightarrow> error list" where
  "errors_of rs = concat (map fst rs)"

definition values_of :: "conv list \<Rightarrow> val list" where
  "values_of rs = map snd rs"

text \<open>
  Modelled from the spec: the serializer of section 4.3. A scalar is transcribed as it is.
  An object is converted member by member, in the declared order of the descriptor of the
  expected type; an unset member is left out, or written as its default with
  \<open>emitDefaultValue\<close>; the type hint is emitted last. An array, a set and a map become
  arrays, a map an array of two-element arrays. A value of another shape is an error. A
  member or element whose conversion failed is left out or leaves the placeholder (the
  specification is silent on it); an expected type without descriptor is an error.
\<close>

function serializeValue ::
    "(val \<Rightarrow> val \<Rightarrow> ctor \<Rightarrow> val) option \<Rightarrow> (ctor \<Rightarrow> string) \<Rightarrow> registry \<Rightarrow> val \<Rightarrow> typeTag \<Rightarrow> conv"
  and serializeMembers ::
    "(val \<Rightarrow> val \<Rightarrow> ctor \<Rightarrow> val) option \<Rightarrow> (ctor \<Rightarrow> string) \<Rightarrow> registry \<Rightarrow> (string \<times> val) list
       \<Rightarrow> memberDescriptor list \<Rightarrow> (string \<times> val) list \<Rightarrow> error list \<times> (string \<times> val) list"
  where
  "serializeValue em nm reg v (Scalar c) =
     (if v = Undefined then ([], Undefined)
      else if isPrimitive v then ([], v)
      else mismatch ''scalar expected'')"
| "serializeValue em nm reg v (Object c) =
     (case v of
        Undefined \<Rightarrow> ([], Undefined)
      | Obj runtime fs \<Rightarrow>
          (case reg c of
             None \<Rightarrow> ([Conversion UnresolvableConstructor (nm c)], Undefined)
           | Some d \<Rightarrow>
               (case serializeMembers em nm reg fs (members d) [] of
                  (errs, target) \<Rightarrow> (errs, emit em nm target v runtime c)))
      | _ \<Rightarrow> mismatch ''object expected'')"
| "serializeValue em nm reg v (ArrayT e depth) =
     (case v of
        Undefined \<Rightarrow> ([], Undefined)
      | Arr xs \<Rightarrow>
          (let rs = map (\<lambda>x. serializeValue em nm reg x (elementTag e depth)) xs
           in (errors_of rs, Arr (values_of rs)))
      | _ \<Rightarrow> mismatch ''array expected'')"
| "serializeValue em nm reg v (SetT e) =
     (case v of
        Undefined \<Rightarrow> ([], Undefined)
      | SetV xs \<Rightarrow>
          (let rs = map (\<lambda>x. serializeValue em nm reg x e) xs
           in (errors_of rs, Arr (values_of rs)))
      | _ \<Rightarrow> mismatch ''set expected'')"
| "serializeValue em nm reg v (MapT kt vt) =
     (case v of
        Undefined \<Rightarrow> ([], Undefined)
      | MapV ps \<Rightarrow>
          (let rs = map (\<lambda>p. (serializeValue em nm reg (fst p) kt,
                               serializeValue em nm reg (snd p) vt)) ps
           in (concat (map (\<lambda>r. fst (fst r) @ fst (snd r)) rs),
               Arr (map (\<lambda>r. Arr [snd (fst r), snd (snd r)]) rs)))
      | _ \<Rightarrow> mismatch ''map expected'')"
| "serializeMembers em nm reg fs [] target = ([], target)"
| "serializeMembers em nm reg fs (m # ms) target =
     (case map_of fs (m_key m) of
        Some fv \<Rightarrow>
          (if fv = Undefined then
             serializeMembers em nm reg fs ms
               (if m_emitDefaultValue m
                then AList.update (serializedName m) (default_value (typeTag m)) target
                else target)
           else
             (case serializeValue em nm reg fv (typeTag m) of
                (errs, p) \<Rightarrow>
                  (case serializeMembers em nm reg fs ms
                          (if p = Undefined then target
                           else AList.update (serializedName m) p target) of
                     (errs', target') \<Rightarrow> (errs @ errs', target'))))
      | None \<Rightarrow>
          serializeMembers em nm reg fs ms
            (if m_emitDefaultValue m
             then AList.update (serializedName m) (default_value (typeTag m)) target
             else target))"
  by pat_completeness auto
termination
proof -
  have field_less: "map_of gs k = Some w \<Longrightarrow> size w < size_list (size_prod (\<lambda>_. 0) size) gs"
    for gs :: "(string \<times> val) list" and k w
    by (induction gs) (auto split: if_splits)
  have pair_less: "q \<in> set qs \<Longrightarrow> size (fst q) < Suc (size_list (size_prod size size) qs)
          \<and> size (snd q) < Suc (size_list (size_prod size size) qs)"
    for qs :: "(val \<times> val) list" and q
    by (induction qs) auto
  have elem_less: "x \<in> set xs \<Longrightarrow> size x < Suc (size_list size xs)"
    for xs :: "val list" and x
    by (induction xs) auto
  show ?thesis
    apply (relation "measures
      [\<lambda>a. case a of
              Inl (em, nm, reg, v, t) \<Rightarrow> size v
            | Inr (em, nm, reg, fs, ms, target) \<Rightarrow> size_list (size_prod (\<lambda>_. 0) size) fs,
       \<lambda>a. case a of
              Inl (em, nm, reg, v, t) \<Rightarrow> 0
            | Inr (em, nm, reg, fs, ms, target) \<Rightarrow> Suc (length ms)]")
    apply (simp_all add: elem_less pair_less)
    apply (auto dest: field_less)
    done
qed

subsection \<open>Deserializer (section 4.4)\<close>

text \<open>
  Modelled from the spec: insertion into a \<^verbatim>\<open>Set\<close> and a \<^verbatim>\<open>Map\<close> with the standard
  set semantics. Primitive values are compared by value; an object that the deserializer
  has just created is a new object, equal to no entry.
\<close>

definition set_add :: "val \<Rightarrow> val list \<Rightarrow> val list" where
  "set_add v s = (if isPrimitive v \<and> v \<in> set s then s else s @ [v])"

definition map_put :: "val \<times> val \<Rightarrow> (val \<times> val) list \<Rightarrow> (val \<times> val) list" where
  "map_put e m =
     (if isPrimitive (fst e) \<and> fst e \<in> fst ` set m then AList.update (fst e) (snd e) m
      else m @ [e])"

text \<open>
  Modelled from the spec: a scalar must have the shape of its kind; an object is built
  from the members of the resolved constructor's descriptor, a missing required member is
  recorded and the remaining members are still processed; arrays, sets and maps must come
  as arrays, a map as an array of two-element arrays. A failed field stays unset, a failed
  element leaves the placeholder.
\<close>

function deserializeValue ::
    "(val \<Rightarrow> knownTypesMap \<Rightarrow> ctor option) option \<Rightarrow> registry \<Rightarrow> knownTypesMap \<Rightarrow> val \<Rightarrow> typeTag
       \<Rightarrow> conv"
  and deserializeMembers ::
    "(val \<Rightarrow> knownTypesMap \<Rightarrow> ctor option) option \<Rightarrow> registry \<Rightarrow> knownTypesMap
       \<Rightarrow> (string \<times> val) list \<Rightarrow> memberDescriptor list \<Rightarrow> (string \<times> val) list
       \<Rightarrow> error list \<times> (string \<times> val) list"
  where
  "deserializeValue tr reg table p (Scalar c) =
     (if c = NumberCtor then (case p of Num n \<Rightarrow> ([], p) | _ \<Rightarrow> mismatch ''number expected'')
      else if c = StringCtor then (case p of Str t \<Rightarrow> ([], p) | _ \<Rightarrow> mismatch ''string expected'')
      else if c = BooleanCtor then (case p of Bool b \<Rightarrow> ([], p) | _ \<Rightarrow> mismatch ''boolean expected'')
      else mismatch ''scalar kind'')"
| "deserializeValue tr reg table p (Object c) =
     (case p of
        Obj pc fs \<Rightarrow>
          (case resolve tr fs table c of
             Inl e \<Rightarrow> ([e], Undefined)
           | Inr resolved \<Rightarrow>
               (case reg resolved of
                  None \<Rightarrow> ([Conversion UnresolvableConstructor ''unregistered type''], Undefined)
                | Some d \<Rightarrow>
                    (case deserializeMembers tr reg table fs (members d) [] of
                       (errs, instance) \<Rightarrow> (errs, Obj resolved instance))))
      | _ \<Rightarrow> mismatch ''object expected'')"
| "deserializeValue tr reg table p (ArrayT e depth) =
     (case p of
        Arr xs \<Rightarrow>
          (let rs = map (\<lambda>x. deserializeValue tr reg table x (elementTag e depth)) xs
           in (errors_of rs, Arr (values_of rs)))
      | _ \<Rightarrow> mismatch ''array expected'')"
| "deserializeValue tr reg table p (SetT e) =
     (case p of
        Arr xs \<Rightarrow>
          (let rs = map (\<lambda>x. deserializeValue tr reg table x e) xs
           in (errors_of rs, SetV (fold set_add (values_of rs) [])))
      | _ \<Rightarrow> mismatch ''array expected'')"
| "deserializeValue tr reg table p (MapT kt vt) =
     (case p of
        Arr xs \<Rightarrow>
          (let rs = map (\<lambda>x. case x of
                                Arr [a, b] \<Rightarrow>
                                  (case (deserializeValue tr reg table a kt,
                                         deserializeValue tr reg table b vt) of
                                     ((ea, ka), (eb, vb)) \<Rightarrow> (ea @ eb, [(ka, vb)]))
                              | _ \<Rightarrow> ([Conversion TypeShapeMismatch ''pair expected''], [])) xs
           in (concat (map fst rs), MapV (fold map_put (concat (map snd rs)) [])))
      | _ \<Rightarrow> mismatch ''array expected'')"
| "deserializeMembers tr reg table fs [] instance = ([], instance)"
| "deserializeMembers tr reg table fs (m # ms) instance =
     (case map_of fs (serializedName m) of
        Some pv \<Rightarrow>
          (case deserializeValue tr reg table pv (typeTag m) of
             (errs, v) \<Rightarrow>
               (case deserializeMembers tr reg table fs ms
                       (if v = Undefined then instance else AList.update (m_key m) v instance) of
                  (errs', instance') \<Rightarrow> (errs @ errs', instance')))
      | None \<Rightarrow>
          (case deserializeMembers tr reg table fs ms instance of
             (errs, instance') \<Rightarrow>
               ((if m_isRequired m then [Conversion MissingRequiredMember (m_key m)] else []) @ errs,
                instance')))"
  by pat_completeness auto
termination
proof -
  have field_less: "map_of gs k = Some w \<Longrightarrow> size w < size_list (size_prod (\<lambda>_. 0) size) gs"
    for gs :: "(string \<times> val) list" and k w
    by (induction gs) (auto split: if_splits)
  have elem_less: "x \<in> set xs \<Longrightarrow> size x < Suc (size_list size xs)"
    for xs :: "val list" and x
    by (induction xs) auto
  show ?thesis
    apply (relation "measures
      [\<lambda>a. case a of
              Inl (tr, reg, table, v, t) \<Rightarrow> size v
            | Inr (tr, reg, table, fs, ms, inst) \<Rightarrow> size_list (size_prod (\<lambda>_. 0) size) fs,
       \<lambda>a. case a of
              Inl (tr, reg, table, v, t) \<Rightarrow> 0
            | Inr (tr, reg, table, fs, ms, inst) \<Rightarrow> Suc (length ms)]")
    apply (simp_all add: elem_less)
    apply (auto dest: field_less elem_less)
    done
qed

subsection \<open>Reporting, and the entry points that the front end calls\<close>

text \<open>
  Modelled from the spec: the failure semantics of sections 4.4 and 7. The errors of a
  conversion go to the error handler in the order in which they were met. When the handler
  throws, the conversion ends with that exception; when it returns for every error, the
  best-effort result is returned. (A handler decides by the error alone whether it throws,
  so reporting after the traversal and reporting during it give the same events and the
  same result.)
\<close>

fun report :: "handler \<Rightarrow> error list \<Rightarrow> unit comp" where
  "report h [] = ([], Inr ())"
| "report h (e # es) = bind (invoke h e) (\<lambda>_. report h es)"

definition deliver :: "handler \<Rightarrow> conv \<Rightarrow> val comp" where
  "deliver h r = bind (report h (fst r)) (\<lambda>_. ([], Inr (snd r)))"

text \<open>
  Modelled from the spec: the entry points of the missing \<^verbatim>\<open>Serializer\<close> and
  \<^verbatim>\<open>Deserializer\<close>, with the arguments that the front end passes. They differ in the type
  tag only.
\<close>

fun arrayTag :: "ctor list \<Rightarrow> typeTag option" where
  "arrayTag [] = None"
| "arrayTag ecs = Some (ArrayT (tagOfCtor (last ecs)) (length ecs))"

definition spec_ser_convertSingleValue ::
  "registry \<Rightarrow> (ctor \<Rightarrow> string) \<Rightarrow> serializer \<Rightarrow> val \<Rightarrow> ctor \<Rightarrow> val comp" where
  "spec_ser_convertSingleValue reg nm z v selfType =
     deliver (z_errorHandler z) (serializeValue (z_typeHintEmitter z) nm reg v (tagOfCtor selfType))"

definition spec_ser_convertAsArray ::
  "registry \<Rightarrow> (ctor \<Rightarrow> string) \<Rightarrow> serializer \<Rightarrow> val \<Rightarrow> ctor list \<Rightarrow> val comp" where
  "spec_ser_convertAsArray reg nm z v ecs =
     deliver (z_errorHandler z)
       (case arrayTag ecs of
          Some t \<Rightarrow> serializeValue (z_typeHintEmitter z) nm reg v t
        | None \<Rightarrow> mismatch ''element type'')"

definition spec_ser_convertAsSet ::
  "registry \<Rightarrow> (ctor \<Rightarrow> string) \<Rightarrow> serializer \<Rightarrow> val \<Rightarrow> ctor \<Rightarrow> val comp" where
  "spec_ser_convertAsSet reg nm z v elementCtor =
     deliver (z_errorHandler z)
       (serializeValue (z_typeHintEmitter z) nm reg v (SetT (tagOfCtor elementCtor)))"

definition spec_ser_convertAsMap ::
  "registry \<Rightarrow> (ctor \<Rightarrow> string) \<Rightarrow> serializer \<Rightarrow> val \<Rightarrow> ctor \<Rightarrow> ctor \<Rightarrow> val comp" where
  "spec_ser_convertAsMap reg nm z v keyCtor valueCtor =
     deliver (z_errorHandler z)
       (serializeValue (z_typeHintEmitter z) nm reg v (MapT (tagOfCtor keyCtor) (tagOfCtor valueCtor)))"

definition spec_des_convertSingleValue ::
  "registry \<Rightarrow> deserializer \<Rightarrow> val \<Rightarrow> typeInfo \<Rightarrow> val comp" where
  "spec_des_convertSingleValue reg d p ti =
     deliver (d_errorHandler d)
       (deserializeValue (d_typeResolver d) reg (ti_knownTypes ti) p (tagOfCtor (selfConstructor ti)))"

definition spec_des_convertAsArray ::
  "registry \<Rightarrow> deserializer \<Rightarrow> val \<Rightarrow> typeInfo \<Rightarrow> val comp" where
  "spec_des_convertAsArray reg d p ti =
     deliver (d_errorHandler d)
       (case elementConstructor ti of
          Some ecs \<Rightarrow>
            (case arrayTag ecs of
               Some t \<Rightarrow> deserializeValue (d_typeResolver d) reg (ti_knownTypes ti) p t
             | None \<Rightarrow> mismatch ''element type'')
        | None \<Rightarrow> mismatch ''element type'')"

definition spec_des_convertAsSet ::
  "registry \<Rightarrow> deserializer \<Rightarrow> val \<Rightarrow> typeInfo \<Rightarrow> val comp" where
  "spec_des_convertAsSet reg d p ti =
     deliver (d_errorHandler d)
       (case elementConstructor ti of
          Some (c # _) \<Rightarrow>
            deserializeValue (d_typeResolver d) reg (ti_knownTypes ti) p (SetT (tagOfCtor c))
        | _ \<Rightarrow> mismatch ''element type'')"

definition spec_des_convertAsMap ::
  "registry \<Rightarrow> deserializer \<Rightarrow> val \<Rightarrow> typeInfo \<Rightarrow> val comp" where
  "spec_des_convertAsMap reg d p ti =
     deliver (d_errorHandler d)
       (case (elementConstructor ti, keyConstructor ti) of
          (Some (c # _), Some kc) \<Rightarrow>
            deserializeValue (d_typeResolver d) reg (ti_knownTypes ti) p
              (MapT (tagOfCtor kc) (tagOfCtor c))
        | _ \<Rightarrow> mismatch ''element type'')"

text \<open>
  Modelled from the spec: the world of the specification. The registry answers the
  metadata lookup \<^verbatim>\<open>JsonObjectMetadata.getFromConstructor\<close>, the text codec is the
  language's, and the converter is the one above.
\<close>

definition metadata_of :: "classDescriptor \<Rightarrow> JsonObjectMetadata" where
  "metadata_of d = \<lparr> isExplicitlyMarked = isExplicitlyRegistered d, knownTypes = knownSubtypes d \<rparr>"

definition spec_world :: "registry \<Rightarrow> (ctor \<Rightarrow> string) \<Rightarrow> (ctor \<Rightarrow> ctor \<Rightarrow> bool) \<Rightarrow> collab" where
  "spec_world reg nm ext = \<lparr>
     getFromConstructor = (\<lambda>c. map_option metadata_of (reg c)),
     nameof = nm,
     extends = ext,
     JSON_parse = std_JSON_parse,
     JSON_stringify = std_JSON_stringify,
     des_convertSingleValue = spec_des_convertSingleValue reg,
     des_convertAsArray = spec_des_convertAsArray reg,
     des_convertAsSet = spec_des_convertAsSet reg,
     des_convertAsMap = spec_des_convertAsMap reg,
     ser_convertSingleValue = spec_ser_convertSingleValue reg nm,
     ser_convertAsArray = spec_ser_convertAsArray reg nm,
     ser_convertAsSet = spec_ser_convertAsSet reg nm,
     ser_convertAsMap = spec_ser_convertAsMap reg nm \<rparr>"

subsection \<open>Typed instances and field-wise equality\<close>

text \<open>
  A class descriptor that the round trip can rely on: member keys and serialized names
  are distinct, and no member is serialized under the reserved key.
\<close>

definition wf_descriptor :: "classDescriptor \<Rightarrow> bool" where
  "wf_descriptor d =
     (distinct (map m_key (members d))
      \<and> distinct (map serializedName (members d))
      \<and> typeHintKey \<notin> set (map serializedName (members d)))"

text \<open>
  \<open>conforms reg v t\<close>: the value \<open>v\<close> is of type \<open>t\<close>, with nothing polymorphic in it.
  A scalar has the shape of its kind. An object has the expected constructor itself as its
  runtime constructor, its own properties are members of the (well-formed) descriptor,
  each holds a value of the member's type, and a member that is not set has neither
  \<open>emitDefaultValue\<close> nor \<open>isRequired\<close>. The primitive elements of a set, and the primitive
  keys of a map, are distinct, as they are in every \<^verbatim>\<open>Set\<close> and \<^verbatim>\<open>Map\<close>.
\<close>

function conforms :: "registry \<Rightarrow> val \<Rightarrow> typeTag \<Rightarrow> bool"
  and conformsMembers :: "registry \<Rightarrow> (string \<times> val) list \<Rightarrow> memberDescriptor list \<Rightarrow> bool"
  where
  "conforms reg v (Scalar c) =
     (case v of
        Num n \<Rightarrow> c = NumberCtor
      | Str s \<Rightarrow> c = StringCtor
      | Bool b \<Rightarrow> c = BooleanCtor
      | _ \<Rightarrow> False)"
| "conforms reg v (Object c) =
     (case v of
        Obj runtime fs \<Rightarrow>
          runtime = c \<and>
          (case reg c of
             None \<Rightarrow> False
           | Some d \<Rightarrow>
               wf_descriptor d \<and> distinct (map fst fs)
               \<and> set (map fst fs) \<subseteq> set (map m_key (members d))
               \<and> conformsMembers reg fs (members d))
      | _ \<Rightarrow> False)"
| "conforms reg v (ArrayT e depth) =
     (case v of
        Arr xs \<Rightarrow> list_all (\<lambda>x. conforms reg x (elementTag e depth)) xs
      | _ \<Rightarrow> False)"
| "conforms reg v (SetT e) =
     (case v of
        SetV xs \<Rightarrow> list_all (\<lambda>x. conforms reg x e) xs \<and> distinct (filter isPrimitive xs)
      | _ \<Rightarrow> False)"
| "conforms reg v (MapT kt vt) =
     (case v of
        MapV ps \<Rightarrow>
          list_all (\<lambda>p. conforms reg (fst p) kt \<and> conforms reg (snd p) vt) ps
          \<and> distinct (filter isPrimitive (map fst ps))
      | _ \<Rightarrow> False)"
| "conformsMembers reg fs [] = True"
| "conformsMembers reg fs (m # ms) =
     ((case map_of fs (m_key m) of
         Some fv \<Rightarrow> conforms reg fv (typeTag m)
       | None \<Rightarrow> \<not> m_emitDefaultValue m \<and> \<not> m_isRequired m)
      \<and> conformsMembers reg fs ms)"
  by pat_completeness auto
termination
proof -
  have field_less: "map_of gs k = Some w \<Longrightarrow> size w < size_list (size_prod (\<lambda>_. 0) size) gs"
    for gs :: "(string \<times> val) list" and k w
    by (induction gs) (auto split: if_splits)
  have pair_less: "q \<in> set qs \<Longrightarrow> size (fst q) < Suc (size_list (size_prod size size) qs)
          \<and> size (snd q) < Suc (size_list (size_prod size size) qs)"
    for qs :: "(val \<times> val) list" and q
    by (induction qs) auto
  have elem_less: "x \<in> set xs \<Longrightarrow> size x < Suc (size_list size xs)"
    for xs :: "val list" and x
    by (induction xs) auto
  show ?thesis
    apply (relation "measures
      [\<lambda>a. case a of
              Inl (reg, v, t) \<Rightarrow> size v
            | Inr (reg, fs, ms) \<Rightarrow> size_list (size_prod (\<lambda>_. 0) size) fs,
       \<lambda>a. case a of
              Inl (reg, v, t) \<Rightarrow> 0
            | Inr (reg, fs, ms) \<Rightarrow> Suc (length ms)]")
    apply (simp_all add: elem_less pair_less)
    apply (auto dest: field_less)
    done
qed

text \<open>
  \<open>same_fields v w\<close>: \<open>w\<close> is \<open>v\<close> field by field. Two objects have the same constructor
  and the same property keys, and under each key values that are the same field by field,
  in whatever order the properties are listed; arrays, sets and maps are compared entry by
  entry; primitive values are equal.
\<close>

function same_fields :: "val \<Rightarrow> val \<Rightarrow> bool" where
  "same_fields (Obj c fs) w =
     (case w of
        Obj c' fs' \<Rightarrow>
          c' = c \<and> set (map fst fs') = set (map fst fs)
          \<and> list_all (\<lambda>f. case map_of fs' (fst f) of
                            Some v' \<Rightarrow> same_fields (snd f) v'
                          | None \<Rightarrow> False) fs
      | _ \<Rightarrow> False)"
| "same_fields (Arr xs) w =
     (case w of
        Arr ys \<Rightarrow> length ys = length xs \<and> list_all (\<lambda>p. same_fields (fst p) (snd p)) (zip xs ys)
      | _ \<Rightarrow> False)"
| "same_fields (SetV xs) w =
     (case w of
        SetV ys \<Rightarrow> length ys = length xs \<and> list_all (\<lambda>p. same_fields (fst p) (snd p)) (zip xs ys)
      | _ \<Rightarrow> False)"
| "same_fields (MapV ps) w =
     (case w of
        MapV qs \<Rightarrow>
          length qs = length ps
          \<and> list_all (\<lambda>r. same_fields (fst (fst r)) (fst (snd r))
                           \<and> same_fields (snd (fst r)) (snd (snd r))) (zip ps qs)
      | _ \<Rightarrow> False)"
| "same_fields Undefined w = (w = Undefined)"
| "same_fields Null w = (w = Null)"
| "same_fields (Bool b) w = (w = Bool b)"
| "same_fields (Num n) w = (w = Num n)"
| "same_fields (Str s) w = (w = Str s)"
  by pat_completeness auto
termination
proof -
  have field_less: "f \<in> set gs \<Longrightarrow> size (snd f) < Suc (size_list (size_prod (\<lambda>_. 0) size) gs)"
    for gs :: "(string \<times> val) list" and f
    by (induction gs) auto
  have pair_less: "q \<in> set qs \<Longrightarrow> size (fst q) < Suc (size_list (size_prod size size) qs)
          \<and> size (snd q) < Suc (size_list (size_prod size size) qs)"
    for qs :: "(val \<times> val) list" and q
    by (induction qs) auto
  have elem_less: "x \<in> set xs \<Longrightarrow> size x < Suc (size_list size xs)"
    for xs :: "val list" and x
    by (induction xs) auto
  show ?thesis
    apply (relation "measure (\<lambda>(v, w). size v)")
    apply (auto dest: set_zip_leftD simp: field_less elem_less)
    apply (auto dest!: set_zip_leftD pair_less)
    done
qed

text \<open>
  The round trip of a value through the converter with the default type resolution
  protocol: serializing reports no error and gives a plain value, and deserializing that
  plain value with the same type tag reports no error and gives the value back, field by
  field.
\<close>

definition round_trips ::
  "(ctor \<Rightarrow> string) \<Rightarrow> registry \<Rightarrow> knownTypesMap \<Rightarrow> val \<Rightarrow> typeTag \<Rightarrow> bool" where
  "round_trips nm reg table v t =
     (case serializeValue None nm reg v t of
        (errs, p) \<Rightarrow>
          errs = [] \<and> p \<noteq> Undefined \<and>
          (case deserializeValue None reg table p t of
             (errs', w) \<Rightarrow> errs' = [] \<and> w \<noteq> Undefined \<and> same_fields v w))"

text \<open>
  The intermediate results of the map case, named for the proofs: the serialized key and
  value of each entry, and what the deserializer makes of each element of the array.
\<close>

definition pair_results ::
  "(ctor \<Rightarrow> string) \<Rightarrow> registry \<Rightarrow> typeTag \<Rightarrow> typeTag \<Rightarrow> (val \<times> val) list \<Rightarrow> (conv \<times> conv) list" where
  "pair_results nm reg kt vt ps =
     map (\<lambda>p. (serializeValue None nm reg (fst p) kt, serializeValue None nm reg (snd p) vt)) ps"

definition entry_results ::
  "registry \<Rightarrow> knownTypesMap \<Rightarrow> typeTag \<Rightarrow> typeTag \<Rightarrow> val list
     \<Rightarrow> (error list \<times> (val \<times> val) list) list" where
  "entry_results reg table kt vt xs =
     map (\<lambda>x. case x of
                  Arr [a, b] \<Rightarrow>
                    (case (deserializeValue None reg table a kt,
                           deserializeValue None reg table b vt) of
                       ((ea, ka), (eb, vb)) \<Rightarrow> (ea @ eb, [(ka, vb)]))
                | _ \<Rightarrow> ([Conversion TypeShapeMismatch ''pair expected''], [])) xs"

section \<open>A concrete world\<close>

text \<open>
  The classes of the closed instances below. \<open>Base\<close> (class 0) has a number member
  \<open>a\<close> and the known subtype \<open>Derived\<close> (class 1), which extends it with a string member
  \<open>b\<close>. Classes 2 and 3 are two classes that are both called \<open>Shape\<close>. \<open>Counter\<close>
  (class 4) has a number member \<open>n\<close> with \<open>emitDefaultValue\<close>. \<open>Number\<close> is marked, as the
  container entry points need for an element type. No other constructor has metadata.
\<close>

definition demo_nameof :: "ctor \<Rightarrow> string" where
  "demo_nameof c =
     (case c of
        ArrayCtor \<Rightarrow> ''Array'' | SetCtor \<Rightarrow> ''Set'' | MapCtor \<Rightarrow> ''Map'' | ObjectCtor \<Rightarrow> ''Object''
      | NumberCtor \<Rightarrow> ''Number'' | StringCtor \<Rightarrow> ''String'' | BooleanCtor \<Rightarrow> ''Boolean''
      | ClassCtor n \<Rightarrow>
          (if n = 0 then ''Base'' else if n = 1 then ''Derived''
           else if n = 2 \<or> n = 3 then ''Shape''
           else if n = 4 then ''Counter''
           else if n = 5 then ''Tagged''
           else if n = 6 then ''Strict''
           else ''Class'' @ show_nat n))"

definition demo_extends :: "ctor \<Rightarrow> ctor \<Rightarrow> bool" where
  "demo_extends c d = (c = ClassCtor 1 \<and> d = ClassCtor 0)"

definition member_a :: memberDescriptor where
  "member_a = \<lparr> m_key = ''a'', serializedName = ''a'', typeTag = Scalar NumberCtor,
                 m_isRequired = False, m_emitDefaultValue = False \<rparr>"

definition member_b :: memberDescriptor where
  "member_b = \<lparr> m_key = ''b'', serializedName = ''b'', typeTag = Scalar StringCtor,
                 m_isRequired = False, m_emitDefaultValue = False \<rparr>"

definition member_n :: memberDescriptor where
  "member_n = \<lparr> m_key = ''n'', serializedName = ''n'', typeTag = Scalar NumberCtor,
                 m_isRequired = False, m_emitDefaultValue = True \<rparr>"

definition member_kind :: memberDescriptor where
  "member_kind = \<lparr> m_key = ''kind'', serializedName = typeHintKey, typeTag = Scalar StringCtor,
                    m_isRequired = False, m_emitDefaultValue = False \<rparr>"

definition member_id :: memberDescriptor where
  "member_id = \<lparr> m_key = ''id'', serializedName = ''id'', typeTag = Scalar NumberCtor,
                  m_isRequired = True, m_emitDefaultValue = False \<rparr>"

definition demo_registry :: registry where
  "demo_registry c =
     (if c = NumberCtor then
        Some \<lparr> isExplicitlyRegistered = True, members = [], knownSubtypes = [] \<rparr>
      else if c = ClassCtor 0 then
        Some \<lparr> isExplicitlyRegistered = True, members = [member_a], knownSubtypes = [ClassCtor 1] \<rparr>
      else if c = ClassCtor 1 then
        Some \<lparr> isExplicitlyRegistered = True, members = [member_a, member_b], knownSubtypes = [] \<rparr>
      else if c = ClassCtor 2 \<or> c = ClassCtor 3 then
        Some \<lparr> isExplicitlyRegistered = True, members = [], knownSubtypes = [] \<rparr>
      else if c = ClassCtor 4 then
        Some \<lparr> isExplicitlyRegistered = True, members = [member_n], knownSubtypes = [] \<rparr>
      else if c = ClassCtor 5 then
        Some \<lparr> isExplicitlyRegistered = True, members = [member_kind], knownSubtypes = [] \<rparr>
      else if c = ClassCtor 6 then
        Some \<lparr> isExplicitlyRegistered = True, members = [member_id], knownSubtypes = [] \<rparr>
      else if c = ClassCtor 7 then
        Some \<lparr> isExplicitlyRegistered = False, members = [member_a], knownSubtypes = [] \<rparr>
      else None)"

definition demo_world :: collab where
  "demo_world = spec_world demo_registry demo_nameof demo_extends"

text \<open>
  A world for observing the front end alone. It has the same classes, and the text codec
  of the language. Its deserializer answers every call with the known-types table it was
  given, as an array of pairs of a name and the number of the class; its serializer hands
  the value on unchanged.
\<close>

definition table_as_value :: "knownTypesMap \<Rightarrow> val" where
  "table_as_value table =
     Arr (map (\<lambda>(n, c). Arr [Str n, (case c of ClassCtor k \<Rightarrow> Num (int k) | _ \<Rightarrow> Null)]) table)"

definition probe_world :: collab where
  "probe_world = demo_world \<lparr>
     des_convertSingleValue := (\<lambda>d v ti. ([], Inr (table_as_value (ti_knownTypes ti)))),
     des_convertAsArray := (\<lambda>d v ti. ([], Inr (table_as_value (ti_knownTypes ti)))),
     des_convertAsSet := (\<lambda>d v ti. ([], Inr (table_as_value (ti_knownTypes ti)))),
     des_convertAsMap := (\<lambda>d v ti. ([], Inr (table_as_value (ti_knownTypes ti)))),
     ser_convertSingleValue := (\<lambda>z v c. ([], Inr v)),
     ser_convertAsArray := (\<lambda>z v cs. ([], Inr v)),
     ser_convertAsSet := (\<lambda>z v c. ([], Inr v)),
     ser_convertAsMap := (\<lambda>z v kc c. ([], Inr v)) \<rparr>"

text \<open>Settings whose error handler re-throws whatever it is given.\<close>

definition rethrowing :: settings where
  "rethrowing = no_settings \<lparr> s_errorHandler := Some (\<lambda>e. Some e) \<rparr>"

text \<open>Settings that list both classes called \<open>Shape\<close> as known types.\<close>

definition both_shapes :: settings where
  "both_shapes = no_settings \<lparr> s_knownTypes := Some [Defined (ClassCtor 2), Defined (ClassCtor 3)] \<rparr>"

text \<open>A global configuration that asks for an indentation of two.\<close>

definition indenting :: settings where
  "indenting = no_settings \<lparr> s_indent := Some 2 \<rparr>"

text \<open>
  ReflectDecorators is loaded; the property \<open>a\<close> is declared a number, \<open>tags\<close> a set and
  \<open>items\<close> an array. A constructor is a subtype of itself only.
\<close>

definition demo_reflection :: reflection where
  "demo_reflection = \<lparr>
     isReflectMetadataSupported = True,
     designType = (\<lambda>target propKey.
        if propKey = ''a'' then Some NumberCtor
        else if propKey = ''tags'' then Some SetCtor
        else if propKey = ''items'' then Some ArrayCtor
        else None),
     isSubtypeOf = (\<lambda>c d. d = Some c),
     r_nameof = demo_nameof \<rparr>"

definition set_options :: IJsonMemberOptions where
  "set_options = empty_options \<lparr> o_constructor := Some (Defined SetCtor) \<rparr>"

section \<open>Properties of the front end\<close>

subsection \<open>Unregistered root types\<close>

lemma new_TypedJSON_not_marked:
  "not_marked (getFromConstructor K rootType) \<Longrightarrow>
     new_TypedJSON K globalConfig rootType st = ([], Inl root_error)"
  by (simp add: new_TypedJSON_def)

lemma bind_throw: "m = (es, Inl e) \<Longrightarrow> bind m f = (es, Inl e)"
  by (simp add: bind_def)

text \<open>
  Claim C4. When the root constructor has no class metadata, or its metadata is not
  explicitly marked, the constructor of the converter throws the \<^verbatim>\<open>TypeError\<close>
  \<open>root_error\<close>, and so does each of the eight static entry points, which construct a
  converter first. No event is produced: the error is not handed to an error handler,
  whatever the settings and the global configuration are (the handler of the settings is
  not even installed at that point).
\<close>

theorem unregistered_root_throws:
  assumes "not_marked (getFromConstructor K rootType)"
  shows "new_TypedJSON K globalConfig rootType st = ([], Inl root_error)
       \<and> static_parse K globalConfig json rootType st = ([], Inl root_error)
       \<and> static_parseAsArray K globalConfig json rootType st = ([], Inl root_error)
       \<and> static_parseAsSet K globalConfig json rootType st = ([], Inl root_error)
       \<and> static_parseAsMap K globalConfig json keyT rootType st = ([], Inl root_error)
       \<and> static_stringify K globalConfig object rootType st = ([], Inl root_error)
       \<and> static_stringifyAsArray K globalConfig object rootType dims st = ([], Inl root_error)
       \<and> static_stringifyAsSet K globalConfig object rootType st = ([], Inl root_error)
       \<and> static_stringifyAsMap K globalConfig object keyT rootType st = ([], Inl root_error)"
proof -
  have c: "new_TypedJSON K globalConfig rootType st = ([], Inl root_error)"
    using assms by (rule new_TypedJSON_not_marked)
  show ?thesis
    unfolding static_parse_def static_parseAsArray_def static_parseAsSet_def
      static_parseAsMap_def static_stringify_def static_stringifyAsArray_def
      static_stringifyAsSet_def static_stringifyAsMap_def
    by (simp add: c bind_throw)
qed

theorem unregistered_root_throws_witness:
  "not_marked (getFromConstructor demo_world (ClassCtor 9))
   \<and> not_marked (getFromConstructor demo_world (ClassCtor 7))
   \<and> new_TypedJSON demo_world None (ClassCtor 9) (Some rethrowing) = ([], Inl root_error)
   \<and> static_parse demo_world None ''{}'' (ClassCtor 9) (Some rethrowing) = ([], Inl root_error)
   \<and> static_stringify demo_world None (Obj (ClassCtor 9) []) (ClassCtor 9) (Some rethrowing)
        = ([], Inl root_error)
   \<and> static_parse demo_world None ''{}'' (ClassCtor 7) (Some rethrowing) = ([], Inl root_error)"
proof -
  have h: "not_marked (getFromConstructor demo_world (ClassCtor 9))"
    by (simp add: not_marked_def demo_world_def spec_world_def demo_registry_def)
  have h': "not_marked (getFromConstructor demo_world (ClassCtor 7))"
    by (simp add: not_marked_def demo_world_def spec_world_def demo_registry_def metadata_of_def)
  from unregistered_root_throws [OF h] unregistered_root_throws [OF h'] h h'
  show ?thesis by simp
qed

subsection \<open>Container entry points on a text that is not an array\<close>

lemma invoke_handled: "Handled e \<in> set (fst (invoke h e))"
  by (cases h) simp_all

lemma bind_invoke_returns:
  "returns h e \<Longrightarrow> bind (invoke h e) (\<lambda>_. ([], Inr v)) = (fst (invoke h e), Inr v)"
  by (cases "invoke h e") (simp add: returns_def bind_def)

text \<open>
  Claim C10. When the text parses to a value that is not an array, \<^verbatim>\<open>parseAsArray\<close>,
  \<^verbatim>\<open>parseAsSet\<close> and \<^verbatim>\<open>parseAsMap\<close> hand a \<^verbatim>\<open>TypeError\<close> to the error handler of the
  converter and, when the handler returns, yield the empty array, the empty set and the
  empty map. The events of the call are those of the one handler invocation, and the
  deserializer is not consulted.
\<close>

theorem non_array_text_gives_empty_container:
  assumes "JSON_parse K json = Inr object"
    and "\<not> isArray object"
    and "returns (errorHandler this) (array_expected object)"
    and "returns (errorHandler this) (set_expected object)"
  shows "parseAsArray K this json dimensions
           = (fst (invoke (errorHandler this) (array_expected object)), Inr (Arr []))
       \<and> parseAsSet K this json
           = (fst (invoke (errorHandler this) (set_expected object)), Inr (SetV []))
       \<and> parseAsMap K this json keyCtor
           = (fst (invoke (errorHandler this) (set_expected object)), Inr (MapV []))
       \<and> Handled (array_expected object)
           \<in> set (fst (invoke (errorHandler this) (array_expected object)))
       \<and> Handled (set_expected object)
           \<in> set (fst (invoke (errorHandler this) (set_expected object)))"
  using assms
  by (simp add: parseAsArray_def parseAsSet_def parseAsMap_def lift_def bind_def
      bind_invoke_returns [unfolded bind_def] invoke_handled)

theorem non_array_text_gives_empty_container_witness:
  "JSON_parse demo_world ''5'' = Inr (Num 5)
   \<and> \<not> isArray (Num 5)
   \<and> returns LogErrorHandler (array_expected (Num 5))
   \<and> returns LogErrorHandler (set_expected (Num 5))
   \<and> parseAsArray demo_world (initial demo_world (ClassCtor 0)) ''5'' None
        = ([Handled (array_expected (Num 5)), ErrorLogged (array_expected (Num 5))], Inr (Arr []))
   \<and> parseAsSet demo_world (initial demo_world (ClassCtor 0)) ''5''
        = ([Handled (set_expected (Num 5)), ErrorLogged (set_expected (Num 5))], Inr (SetV []))
   \<and> parseAsMap demo_world (initial demo_world (ClassCtor 0)) ''5'' StringCtor
        = ([Handled (set_expected (Num 5)), ErrorLogged (set_expected (Num 5))], Inr (MapV []))"
proof -
  have p: "JSON_parse demo_world ''5'' = Inr (Num 5)"
    by code_simp
  have a: "\<not> isArray (Num 5)"
    by simp
  have h: "errorHandler (initial demo_world (ClassCtor 0)) = LogErrorHandler"
    by (simp add: initial_def)
  have r1: "returns (errorHandler (initial demo_world (ClassCtor 0))) (array_expected (Num 5))"
    by (simp add: h returns_def)
  have r2: "returns (errorHandler (initial demo_world (ClassCtor 0))) (set_expected (Num 5))"
    by (simp add: h returns_def)
  from non_array_text_gives_empty_container [OF p a r1 r2, of None StringCtor] p
  show ?thesis
    by (simp add: h returns_def)
qed

subsection \<open>\<^verbatim>\<open>stringify\<close> on a value that is not an instance of the root type\<close>

lemma stringify_non_instance:
  assumes "\<not> instanceof (extends K) object (rootConstructor this)"
    and "constructor_of object = Inr c"
    and "returns (errorHandler this) (type_expected K (rootConstructor this) c)"
  shows "stringify K this object
           = (fst (invoke (errorHandler this) (type_expected K (rootConstructor this) c)),
              Inr Undefined)"
  using assms
  by (cases "invoke (errorHandler this) (type_expected K (rootConstructor this) c)")
     (auto simp: stringify_def lift_def bind_def returns_def)

lemma stringify_non_instance_handler_throws:
  assumes "\<not> instanceof (extends K) object (rootConstructor this)"
    and "constructor_of object = Inr c"
    and "invoke (errorHandler this) (type_expected K (rootConstructor this) c) = (es, Inl e')"
  shows "stringify K this object = (es, Inl e')"
  using assms by (simp add: stringify_def lift_def bind_def)

text \<open>
  Claim C9, at the argument \<^verbatim>\<open>null\<close>. \<^verbatim>\<open>null\<close> is not an instance of anything, so
  \<^verbatim>\<open>stringify\<close> takes the branch that reports a \<^verbatim>\<open>TypeError\<close>. The message of that error
  reads \<^verbatim>\<open>object.constructor\<close>, which throws for \<^verbatim>\<open>null\<close> before the handler is called:
  the call ends with the engine's \<^verbatim>\<open>TypeError\<close>, no error reaches the handler, and
  \<^verbatim>\<open>undefined\<close> is not returned. This holds for every converter, whatever its handler.
\<close>

theorem stringify_null_throws:
  "stringify K this Null
     = ([], Inl (TypeError ''Cannot read properties of null (reading 'constructor')''))"
  by (simp add: stringify_def lift_def bind_def)

subsection \<open>Errors and the error handler in \<^verbatim>\<open>parse\<close> and \<^verbatim>\<open>stringify\<close>\<close>

lemma parse_body_returns:
  "parse_body K this json = (es, Inr r) \<Longrightarrow> parse K this json = (es, Inr r)"
  by (simp add: parse_def)

lemma parse_body_throws:
  "parse_body K this json = (es, Inl e)
   \<Longrightarrow> parse K this json
         = (es @ fst (invoke (errorHandler this) e),
            (case snd (invoke (errorHandler this) e) of Inl e' \<Rightarrow> Inl e' | Inr _ \<Rightarrow> Inr Undefined))"
  by (cases "invoke (errorHandler this) e") (auto simp: parse_def split: sum.splits)

lemma stringify_body_throws:
  assumes "instanceof (extends K) object (rootConstructor this)"
    and "stringify_body K this object = (es, Inl e)"
  shows "stringify K this object
           = (es @ fst (invoke (errorHandler this) e),
              (case snd (invoke (errorHandler this) e) of Inl e' \<Rightarrow> Inl e' | Inr _ \<Rightarrow> Inr (Str [])))"
  using assms
  by (cases "invoke (errorHandler this) e") (auto simp: stringify_def split: sum.splits)

text \<open>
  Claim C5, at the argument \<^verbatim>\<open>undefined\<close> of \<^verbatim>\<open>stringify\<close>. An error that the body of
  the \<^verbatim>\<open>try\<close> block throws goes to the handler (the three lemmas above). The
  \<^verbatim>\<open>TypeError\<close> that is raised while the message for a non-instance is put together is
  raised outside that block: it leaves \<^verbatim>\<open>stringify\<close> without having been handed to the
  handler, also when the handler would have returned.
\<close>

theorem stringify_undefined_bypasses_handler:
  "stringify K this Undefined
     = ([], Inl (TypeError ''Cannot read properties of undefined (reading 'constructor')''))"
  by (simp add: stringify_def lift_def bind_def)

subsection \<open>The known-types table\<close>

lemma find_snoc:
  "find P (xs @ [x]) = (case find P xs of None \<Rightarrow> (if P x then Some x else None) | Some y \<Rightarrow> Some y)"
  by (induction xs) auto

lemma map_of_map_set: "map_of (map_set k v m) = (map_of m)(k \<mapsto> v)"
  by (simp add: map_set_def update_conv')

lemma map_of_fold_map_set:
  "map_of (fold (\<lambda>c m. map_set (nm c) c m) cs m0) n
     = (case find (\<lambda>c. nm c = n) (rev cs) of None \<Rightarrow> map_of m0 n | Some c \<Rightarrow> Some c)"
proof (induction cs arbitrary: m0)
  case Nil
  then show ?case by simp
next
  case (Cons c cs)
  show ?case
    by (simp add: Cons.IH find_snoc map_of_map_set split: option.splits)
qed

lemma parse_knownTypes_fold:
  "parse_knownTypes K this
     = fold (\<lambda>c m. map_set (nameResolver this c) c m) (root_knownTypes K this)
         (mapKnownTypes this (globalKnownTypes this))"
  by (simp add: parse_knownTypes_def mapKnownTypes_def root_knownTypes_def split: option.splits)

text \<open>
  Claim C3, as the code has it. A name is mapped to the constructor that was entered last
  under it: in \<^verbatim>\<open>parse\<close> the last one among the global known types followed by the known
  types of the root metadata, in \<^verbatim>\<open>_mapKnownTypes\<close> the last one of the list. Building the
  table produces no event, so a collision is not reported.
\<close>

theorem known_types_last_entry_wins:
  "map_of (parse_knownTypes K this) n
     = find (\<lambda>c. nameResolver this c = n)
         (rev (defined_values (globalKnownTypes this) @ root_knownTypes K this))
   \<and> map_of (mapKnownTypes this cs) n
     = find (\<lambda>c. nameResolver this c = n) (rev (defined_values cs))"
proof -
  have find_app: "find P (xs @ ys) = (case find P xs of None \<Rightarrow> find P ys | Some y \<Rightarrow> Some y)"
    for P :: "ctor \<Rightarrow> bool" and xs ys
    by (induction xs) auto
  have m: "map_of (mapKnownTypes this ds) n = find (\<lambda>c. nameResolver this c = n) (rev (defined_values ds))"
    for ds
    by (simp add: mapKnownTypes_def map_of_fold_map_set split: option.splits)
  have p: "map_of (parse_knownTypes K this) n
     = find (\<lambda>c. nameResolver this c = n)
         (rev (defined_values (globalKnownTypes this) @ root_knownTypes K this))"
    by (simp add: parse_knownTypes_fold map_of_fold_map_set m find_app split: option.splits)
  from m p show ?thesis by simp
qed

text \<open>
  Claim C3 as stated fails: with both classes called \<open>Shape\<close> among the known types, the
  name is entered for two distinct constructors in turn. \<^verbatim>\<open>parse\<close> reports nothing, and
  the table that it passes to the deserializer maps the name to the second class only.
\<close>

theorem colliding_names_counterexample:
  \<open>ClassCtor 2 \<noteq> ClassCtor 3
   \<and> demo_nameof (ClassCtor 2) = demo_nameof (ClassCtor 3)
   \<and> (case new_TypedJSON probe_world None (ClassCtor 2) (Some both_shapes) of
        (es, Inr this) \<Rightarrow>
          es = []
          \<and> defined_values (globalKnownTypes this) = [ClassCtor 2, ClassCtor 3]
          \<and> parse_knownTypes probe_world this = [(''Shape'', ClassCtor 3)]
      | (es, Inl e) \<Rightarrow> False)
   \<and> static_parse probe_world None ''{}'' (ClassCtor 2) (Some both_shapes)
        = ([], Inr (Arr [Arr [Str ''Shape'', Num 3]]))\<close>
  by code_simp

text \<open>
  In the converter of the specification, the object that is hinted as a \<open>Shape\<close> becomes
  an instance of the class entered last, and nothing is reported.
\<close>

lemma colliding_names_in_the_converter:
  \<open>static_parse demo_world None ''{"__type":"Shape"}'' (ClassCtor 2) (Some both_shapes)
     = ([], Inr (Obj (ClassCtor 3) []))\<close>
  by code_simp



text \<open>
  In the converter of the specification, which resolves a type hint in the table it is
  given, an object that is hinted as \<open>Derived\<close> is converted by \<^verbatim>\<open>parse\<close> and reported as
  unresolvable by \<^verbatim>\<open>parseAsArray\<close>.
\<close>

lemma container_tables_in_the_converter:
  \<open>static_parse demo_world None ''{"__type":"Derived"}'' (ClassCtor 0) None
     = ([], Inr (Obj (ClassCtor 1) []))
   \<and> static_parseAsArray demo_world None ''[{"__type":"Derived"}]'' (ClassCtor 0) None
     = ([Handled (Conversion UnresolvableConstructor ''Derived''),
         ErrorLogged (Conversion UnresolvableConstructor ''Derived'')],
        Inr (Arr [Undefined]))\<close>
  by code_simp

subsection \<open>The global configuration\<close>







text \<open>The same two calls in the converter of the specification.\<close>

lemma global_config_in_the_converter:
  \<open>static_stringify demo_world None (Obj (ClassCtor 0) [(''a'', Num 1)]) (ClassCtor 0) None
     = ([], Inr (Str ''{"a":1}''))
   \<and> static_stringify demo_world (setGlobalConfig None indenting)
        (Obj (ClassCtor 0) [(''a'', Num 1)]) (ClassCtor 0) None
     = ([], Inr (Str (''{'' @ [CHR 0x0A] @ ''  "a": 1'' @ [CHR 0x0A] @ ''}'')))\<close>
  by code_simp

section \<open>Properties of the member decorators\<close>

lemma isSpecialPropertyType_container:
  "isContainerCtor c \<Longrightarrow> \<exists>msg. isSpecialPropertyType c dn = ([MessageLogged msg], True)"
  by (auto simp: isContainerCtor_def isSpecialPropertyType_def)

lemma isSpecialPropertyType_other:
  "\<not> isContainerCtor c \<Longrightarrow> isSpecialPropertyType c dn = ([], False)"
  by (auto simp: isContainerCtor_def isSpecialPropertyType_def)

lemma jsonMember_propCtor_not_injected:
  "list_all (\<lambda>ev. \<not> injected ev) (fst (jsonMember_propCtor R options target propKey))"
  by (auto simp: jsonMember_propCtor_def injected_def Let_def split: nullable.splits option.splits)

lemma jsonMember_rejects:
  assumes "resolved_propCtor R u = Some c" and "isContainerCtor c"
  shows "list_ex logged (jsonMember R u) \<and> list_all (\<lambda>ev. \<not> injected ev) (jsonMember R u)"
proof (cases u)
  case (Direct target propKey)
  obtain msg where m: "isSpecialPropertyType c (jsonMember_name R target propKey)
      = ([MessageLogged msg], True)"
    using isSpecialPropertyType_container [OF assms(2)] by blast
  from assms(1) Direct m show ?thesis
    by (auto simp: jsonMember_direct_def logged_def injected_def split: if_splits)
next
  case (WithOptions optionsOrTarget target propKey)
  define options where
    "options = (case optionsOrTarget of Some opts \<Rightarrow> opts | None \<Rightarrow> empty_options)"
  obtain es where p: "jsonMember_propCtor R options target propKey = (es, Inr c)"
    using assms(1) WithOptions
    by (cases "jsonMember_propCtor R options target propKey")
       (auto simp: options_def split: sum.splits)
  obtain msg where m: "isSpecialPropertyType c (jsonMember_name R target propKey)
      = ([MessageLogged msg], True)"
    using isSpecialPropertyType_container [OF assms(2)] by blast
  have es: "list_all (\<lambda>ev. \<not> injected ev) es"
    using jsonMember_propCtor_not_injected [of R options target propKey] p by simp
  from WithOptions p m es show ?thesis
    by (simp add: jsonMember_factory_def options_def [symmetric] logged_def injected_def)
qed

lemma jsonMember_injects_no_container:
  "list_all (\<lambda>ev. case ev of
                    Injected t k md \<Rightarrow> \<not> isContainerCtor (ctor md) \<and> elementType md = None
                  | _ \<Rightarrow> True) (jsonMember R u)"
proof (cases u)
  case (Direct target propKey)
  show ?thesis
  proof (cases "isReflectMetadataSupported R")
    case False
    with Direct show ?thesis by (simp add: jsonMember_direct_def)
  next
    case True
    show ?thesis
    proof (cases "designType R target propKey")
      case None
      with True Direct show ?thesis by (simp add: jsonMember_direct_def)
    next
      case (Some c)
      show ?thesis
      proof (cases "isContainerCtor c")
        case True
        then obtain msg where "isSpecialPropertyType c (jsonMember_name R target propKey)
            = ([MessageLogged msg], True)"
          using isSpecialPropertyType_container by blast
        with Some \<open>isReflectMetadataSupported R\<close> Direct show ?thesis
          by (simp add: jsonMember_direct_def)
      next
        case False
        with Some \<open>isReflectMetadataSupported R\<close> Direct show ?thesis
          by (simp add: jsonMember_direct_def isSpecialPropertyType_other)
      qed
    qed
  qed
next
  case (WithOptions optionsOrTarget target propKey)
  define options where
    "options = (case optionsOrTarget of Some opts \<Rightarrow> opts | None \<Rightarrow> empty_options)"
  obtain es r where p: "jsonMember_propCtor R options target propKey = (es, r)"
    by (cases "jsonMember_propCtor R options target propKey")
  have "list_all (\<lambda>ev. \<not> injected ev) es"
    using jsonMember_propCtor_not_injected [of R options target propKey] p by simp
  then have es: "list_all (\<lambda>ev. case ev of
                    Injected t k md \<Rightarrow> \<not> isContainerCtor (ctor md) \<and> elementType md = None
                  | _ \<Rightarrow> True) es"
    by (induction es) (auto simp: injected_def split: event.splits)
  show ?thesis
  proof (cases r)
    case (Inl a)
    with WithOptions p es show ?thesis
      by (simp add: jsonMember_factory_def options_def [symmetric])
  next
    case (Inr c)
    show ?thesis
    proof (cases "isContainerCtor c")
      case True
      then obtain msg where "isSpecialPropertyType c (jsonMember_name R target propKey)
          = ([MessageLogged msg], True)"
        using isSpecialPropertyType_container by blast
      with Inr WithOptions p es show ?thesis
        by (simp add: jsonMember_factory_def options_def [symmetric])
    next
      case False
      with Inr WithOptions p es show ?thesis
        by (simp add: jsonMember_factory_def options_def [symmetric] isSpecialPropertyType_other)
    qed
  qed
qed

text \<open>
  Claim C6. When the property constructor that \<^verbatim>\<open>jsonMember\<close> resolves is \<^verbatim>\<open>Array\<close>,
  \<^verbatim>\<open>Set\<close> or \<^verbatim>\<open>Map\<close>, the decorator logs an error and does not call
  \<^verbatim>\<open>injectMetadataInformation\<close>. Hence every member metadata that \<^verbatim>\<open>jsonMember\<close> injects,
  in either of its two uses, has no element type and a constructor that is none of the
  three.
\<close>

theorem jsonMember_rejects_containers:
  "(resolved_propCtor R u = Some c \<and> isContainerCtor c
      \<longrightarrow> list_ex logged (jsonMember R u) \<and> list_all (\<lambda>ev. \<not> injected ev) (jsonMember R u))
   \<and> list_all (\<lambda>ev. case ev of
                    Injected t k md \<Rightarrow> \<not> isContainerCtor (ctor md) \<and> elementType md = None
                  | _ \<Rightarrow> True) (jsonMember R v)"
  using jsonMember_rejects [of R u c] jsonMember_injects_no_container [of R v] by blast

theorem jsonMember_rejects_containers_witness:
  "resolved_propCtor demo_reflection (WithOptions (Some set_options) (ClassCtor 0) ''tags'') = Some SetCtor
   \<and> isContainerCtor SetCtor
   \<and> list_ex logged (jsonMember demo_reflection (WithOptions (Some set_options) (ClassCtor 0) ''tags''))
   \<and> list_all (\<lambda>ev. \<not> injected ev)
         (jsonMember demo_reflection (WithOptions (Some set_options) (ClassCtor 0) ''tags''))
   \<and> jsonMember demo_reflection (WithOptions (Some set_options) (ClassCtor 0) ''tags'')
       = [MessageLogged (''@jsonMember on Base.tags''
            @ '': property is a Set. Use the jsonSetMember decorator to serialize this property.'')]
   \<and> jsonMember demo_reflection (Direct (ClassCtor 0) ''a'')
       = [Injected (ClassCtor 0) ''a''
            \<lparr> ctor = NumberCtor, elementType = None, emitDefaultValue = None, isRequired = None,
              key = ''a'', name = ''a'' \<rparr>]
   \<and> list_all (\<lambda>ev. case ev of
                    Injected t k md \<Rightarrow> \<not> isContainerCtor (ctor md) \<and> elementType md = None
                  | _ \<Rightarrow> True) (jsonMember demo_reflection (Direct (ClassCtor 0) ''a''))"
proof -
  have r: "resolved_propCtor demo_reflection (WithOptions (Some set_options) (ClassCtor 0) ''tags'')
             = Some SetCtor"
    by code_simp
  have c: "isContainerCtor SetCtor"
    by (simp add: isContainerCtor_def)
  have e1: "jsonMember demo_reflection (WithOptions (Some set_options) (ClassCtor 0) ''tags'')
       = [MessageLogged (''@jsonMember on Base.tags''
            @ '': property is a Set. Use the jsonSetMember decorator to serialize this property.'')]"
    by code_simp
  have e2: "jsonMember demo_reflection (Direct (ClassCtor 0) ''a'')
       = [Injected (ClassCtor 0) ''a''
            \<lparr> ctor = NumberCtor, elementType = None, emitDefaultValue = None, isRequired = None,
              key = ''a'', name = ''a'' \<rparr>]"
    by code_simp
  from jsonMember_rejects_containers
         [of demo_reflection "WithOptions (Some set_options) (ClassCtor 0) ''tags''" SetCtor
             "Direct (ClassCtor 0) ''a''"] r c e1 e2
  show ?thesis by simp
qed

text \<open>
  A remark on the decorator that the factory returns. Its test
  \<^verbatim>\<open>typeof options.hasOwnProperty("constructor")\<close> is always true, so without a
  \<^verbatim>\<open>constructor\<close> option the inherited \<^verbatim>\<open>Object\<close> is taken and the \<^verbatim>\<open>design:type\<close> is
  not consulted: \<^verbatim>\<open>@jsonMember({})\<close> on a property of type \<^verbatim>\<open>Array\<close> injects a member
  with the constructor \<^verbatim>\<open>Object\<close>.
\<close>

lemma jsonMember_without_constructor_option:
  "jsonMember demo_reflection (WithOptions (Some empty_options) (ClassCtor 0) ''items'')
     = [WarningLogged ''@jsonMember on Base.items: detected property type does not match 'constructor' option.'',
        Injected (ClassCtor 0) ''items''
          \<lparr> ctor = ObjectCtor, elementType = None, emitDefaultValue = Some False,
            isRequired = Some False, key = ''items'', name = ''items'' \<rparr>]"
  by code_simp

section \<open>Properties of the converter\<close>

subsection \<open>Sets and maps at the top level\<close>

text \<open>
  Claim C7. In the concrete world, where the metadata lookup answers \<^verbatim>\<open>Number\<close> with a
  marked descriptor (as the constructor of the converter requires of an element type),
  \<^verbatim>\<open>stringifyAsSet\<close> of the set of 1, 2, 3 gives the text \<^verbatim>\<open>[1,2,3]\<close> and
  \<^verbatim>\<open>parseAsSet\<close> of that text gives the set back; \<^verbatim>\<open>stringifyAsMap\<close> of the map from
  \<^verbatim>\<open>"a"\<close> to 1 gives \<^verbatim>\<open>[["a",1]]\<close> and \<^verbatim>\<open>parseAsMap\<close> of that text gives the map back.
  No error is reported on the way.
\<close>

theorem set_and_map_examples:
  \<open>static_stringifyAsSet demo_world None (SetV [Num 1, Num 2, Num 3]) NumberCtor None
     = ([], Inr (Str ''[1,2,3]''))
   \<and> static_parseAsSet demo_world None ''[1,2,3]'' NumberCtor None
     = ([], Inr (SetV [Num 1, Num 2, Num 3]))
   \<and> static_stringifyAsMap demo_world None (MapV [(Str ''a'', Num 1)]) StringCtor NumberCtor None
     = ([], Inr (Str ''[["a",1]]''))
   \<and> static_parseAsMap demo_world None ''[["a",1]]'' StringCtor NumberCtor None
     = ([], Inr (MapV [(Str ''a'', Num 1)]))\<close>
  by code_simp

subsection \<open>The round trip\<close>

lemma conforms_defined: "conforms reg v t \<Longrightarrow> v \<noteq> Undefined"
  by (cases t) auto

lemma same_fields_primitive: "isPrimitive v \<Longrightarrow> same_fields v w = (w = v)"
  by (cases v) auto

lemma same_fields_not_primitive: "\<not> isPrimitive v \<Longrightarrow> same_fields v w \<Longrightarrow> \<not> isPrimitive w"
  by (cases v; cases w) auto

lemma round_trips_iff:
  "round_trips nm reg table v t \<longleftrightarrow>
     fst (serializeValue None nm reg v t) = []
     \<and> snd (serializeValue None nm reg v t) \<noteq> Undefined
     \<and> fst (deserializeValue None reg table (snd (serializeValue None nm reg v t)) t) = []
     \<and> snd (deserializeValue None reg table (snd (serializeValue None nm reg v t)) t) \<noteq> Undefined
     \<and> same_fields v (snd (deserializeValue None reg table (snd (serializeValue None nm reg v t)) t))"
  by (simp add: round_trips_def case_prod_unfold)

lemma fold_set_add:
  "distinct (filter isPrimitive (acc @ ys)) \<Longrightarrow> fold set_add ys acc = acc @ ys"
proof (induction ys arbitrary: acc)
  case Nil
  then show ?case by simp
next
  case (Cons y ys)
  have a: "set_add y acc = acc @ [y]"
    using Cons.prems by (auto simp: set_add_def)
  have "distinct (filter isPrimitive ((acc @ [y]) @ ys))"
    using Cons.prems by simp
  then have "fold set_add ys (acc @ [y]) = (acc @ [y]) @ ys"
    by (rule Cons.IH)
  with a show ?case by simp
qed

lemma fold_map_put:
  "distinct (filter isPrimitive (map fst (acc @ es))) \<Longrightarrow> fold map_put es acc = acc @ es"
proof (induction es arbitrary: acc)
  case Nil
  then show ?case by simp
next
  case (Cons e es)
  have a: "map_put e acc = acc @ [e]"
    using Cons.prems by (auto simp: map_put_def)
  have "distinct (filter isPrimitive (map fst ((acc @ [e]) @ es)))"
    using Cons.prems by simp
  then have "fold map_put es (acc @ [e]) = (acc @ [e]) @ es"
    by (rule Cons.IH)
  with a show ?case by simp
qed

lemma round_trips_elements:
  assumes "\<forall>x \<in> set xs. round_trips nm reg table x t"
  shows "errors_of (map (\<lambda>x. serializeValue None nm reg x t) xs) = []
       \<and> errors_of (map (\<lambda>p. deserializeValue None reg table p t)
                      (values_of (map (\<lambda>x. serializeValue None nm reg x t) xs))) = []
       \<and> length (values_of (map (\<lambda>p. deserializeValue None reg table p t)
                      (values_of (map (\<lambda>x. serializeValue None nm reg x t) xs)))) = length xs
       \<and> list_all (\<lambda>p. same_fields (fst p) (snd p))
           (zip xs (values_of (map (\<lambda>p. deserializeValue None reg table p t)
                      (values_of (map (\<lambda>x. serializeValue None nm reg x t) xs)))))"
  using assms
  by (induction xs) (auto simp: errors_of_def values_of_def round_trips_def split: prod.splits)


lemma find_key_None:
  "k \<notin> f ` set xs \<Longrightarrow> find (\<lambda>y. f y = k \<and> Q y) xs = None"
  by (auto simp: find_None_iff)

lemma find_unique:
  "distinct (map f xs) \<Longrightarrow> x \<in> set xs \<Longrightarrow>
     find (\<lambda>y. f y = f x \<and> Q y) xs = (if Q x then Some x else None)"
proof (induction xs)
  case Nil
  then show ?case by simp
next
  case (Cons a xs)
  show ?case
  proof (cases "a = x")
    case True
    have "f x \<notin> f ` set xs"
      using Cons.prems(1) True by simp
    then have "find (\<lambda>y. f y = f x \<and> Q y) xs = None"
      by (rule find_key_None)
    with True show ?thesis by simp
  next
    case False
    with Cons.prems have "x \<in> set xs" and "f a \<noteq> f x" and "distinct (map f xs)"
      by auto
    with Cons.IH show ?thesis by simp
  qed
qed

lemma serializeMembers_lookup:
  assumes "distinct (map serializedName ms)"
    and "\<forall>m \<in> set ms.
           (case map_of fs (m_key m) of
              None \<Rightarrow> \<not> m_emitDefaultValue m
            | Some fv \<Rightarrow> fv \<noteq> Undefined
                \<and> fst (serializeValue None nm reg fv (typeTag m)) = []
                \<and> snd (serializeValue None nm reg fv (typeTag m)) \<noteq> Undefined)"
  shows "fst (serializeMembers None nm reg fs ms target) = []
       \<and> (\<forall>n. map_of (snd (serializeMembers None nm reg fs ms target)) n =
              (case find (\<lambda>m. serializedName m = n \<and> map_of fs (m_key m) \<noteq> None) ms of
                 Some m \<Rightarrow> Some (snd (serializeValue None nm reg (the (map_of fs (m_key m))) (typeTag m)))
               | None \<Rightarrow> map_of target n))"
  using assms
proof (induction ms arbitrary: target)
  case Nil
  then show ?case by simp
next
  case (Cons m ms)
  have d: "distinct (map serializedName ms)" and fresh: "serializedName m \<notin> serializedName ` set ms"
    using Cons.prems(1) by auto
  have rest: "\<forall>m \<in> set ms.
           (case map_of fs (m_key m) of
              None \<Rightarrow> \<not> m_emitDefaultValue m
            | Some fv \<Rightarrow> fv \<noteq> Undefined
                \<and> fst (serializeValue None nm reg fv (typeTag m)) = []
                \<and> snd (serializeValue None nm reg fv (typeTag m)) \<noteq> Undefined)"
    using Cons.prems(2) by simp
  note IH = Cons.IH [OF d rest]
  show ?case
  proof (cases "map_of fs (m_key m)")
    case None
    then have "\<not> m_emitDefaultValue m"
      using Cons.prems(2) by simp
    with None IH [of target] show ?thesis by simp
  next
    case (Some fv)
    then have fv: "fv \<noteq> Undefined"
      and e: "fst (serializeValue None nm reg fv (typeTag m)) = []"
      and p: "snd (serializeValue None nm reg fv (typeTag m)) \<noteq> Undefined"
      using Cons.prems(2) by simp_all
    define pv where "pv = snd (serializeValue None nm reg fv (typeTag m))"
    have sv: "serializeValue None nm reg fv (typeTag m) = ([], pv)"
      using e by (simp add: pv_def prod_eq_iff)
    have p': "pv \<noteq> Undefined"
      using p by (simp add: pv_def)
    have step: "serializeMembers None nm reg fs (m # ms) target
        = serializeMembers None nm reg fs ms (AList.update (serializedName m) pv target)"
      using Some fv sv p' by (simp add: case_prod_unfold)
    have none: "find (\<lambda>m'. serializedName m' = serializedName m \<and> map_of fs (m_key m') \<noteq> None) ms = None"
      using fresh by (rule find_key_None)
    show ?thesis
      unfolding step
      using IH [of "AList.update (serializedName m) pv target"] Some none
      by (auto simp: update_conv' pv_def split: option.splits)
  qed
qed

lemma deserializeMembers_lookup:
  assumes "distinct (map m_key ms)"
    and "\<forall>m \<in> set ms.
           (case map_of plain (serializedName m) of
              None \<Rightarrow> \<not> m_isRequired m
            | Some pv \<Rightarrow> fst (deserializeValue None reg table pv (typeTag m)) = []
                \<and> snd (deserializeValue None reg table pv (typeTag m)) \<noteq> Undefined)"
  shows "fst (deserializeMembers None reg table plain ms inst) = []
       \<and> (\<forall>k. map_of (snd (deserializeMembers None reg table plain ms inst)) k =
              (case find (\<lambda>m. m_key m = k \<and> map_of plain (serializedName m) \<noteq> None) ms of
                 Some m \<Rightarrow> Some (snd (deserializeValue None reg table
                                        (the (map_of plain (serializedName m))) (typeTag m)))
               | None \<Rightarrow> map_of inst k))"
  using assms
proof (induction ms arbitrary: inst)
  case Nil
  then show ?case by simp
next
  case (Cons m ms)
  have d: "distinct (map m_key ms)" and fresh: "m_key m \<notin> m_key ` set ms"
    using Cons.prems(1) by auto
  have rest: "\<forall>m \<in> set ms.
           (case map_of plain (serializedName m) of
              None \<Rightarrow> \<not> m_isRequired m
            | Some pv \<Rightarrow> fst (deserializeValue None reg table pv (typeTag m)) = []
                \<and> snd (deserializeValue None reg table pv (typeTag m)) \<noteq> Undefined)"
    using Cons.prems(2) by simp
  note IH = Cons.IH [OF d rest]
  show ?case
  proof (cases "map_of plain (serializedName m)")
    case None
    then have "\<not> m_isRequired m"
      using Cons.prems(2) by simp
    with None IH [of inst] show ?thesis by (simp split: prod.splits)
  next
    case (Some pv)
    then have e: "fst (deserializeValue None reg table pv (typeTag m)) = []"
      and p: "snd (deserializeValue None reg table pv (typeTag m)) \<noteq> Undefined"
      using Cons.prems(2) by simp_all
    define w where "w = snd (deserializeValue None reg table pv (typeTag m))"
    have dv: "deserializeValue None reg table pv (typeTag m) = ([], w)"
      using e by (simp add: w_def prod_eq_iff)
    have p': "w \<noteq> Undefined"
      using p by (simp add: w_def)
    have step: "deserializeMembers None reg table plain (m # ms) inst
        = deserializeMembers None reg table plain ms (AList.update (m_key m) w inst)"
      using Some dv p' by (simp add: case_prod_unfold)
    have none: "find (\<lambda>m'. m_key m' = m_key m \<and> map_of plain (serializedName m') \<noteq> None) ms = None"
      using fresh by (rule find_key_None)
    show ?thesis
      unfolding step
      using IH [of "AList.update (m_key m) w inst"] Some none
      by (auto simp: update_conv' w_def split: option.splits)
  qed
qed


lemma filter_primitive_same:
  "length ys = length xs \<Longrightarrow> list_all (\<lambda>p. same_fields (fst p) (snd p)) (zip xs ys)
     \<Longrightarrow> filter isPrimitive ys = filter isPrimitive xs"
proof (induction xs ys rule: list_induct2')
  case (4 x xs y ys)
  then show ?case
    by (cases "isPrimitive x") (auto simp: same_fields_primitive dest: same_fields_not_primitive)
qed simp_all

lemma round_trips_pairs:
  assumes "\<forall>p \<in> set ps. round_trips nm reg table (fst p) kt \<and> round_trips nm reg table (snd p) vt"
  shows "concat (map (\<lambda>r. fst (fst r) @ fst (snd r)) (pair_results nm reg kt vt ps)) = []
       \<and> concat (map fst (entry_results reg table kt vt
            (map (\<lambda>r. Arr [snd (fst r), snd (snd r)]) (pair_results nm reg kt vt ps)))) = []
       \<and> length (concat (map snd (entry_results reg table kt vt
            (map (\<lambda>r. Arr [snd (fst r), snd (snd r)]) (pair_results nm reg kt vt ps))))) = length ps
       \<and> list_all (\<lambda>r. same_fields (fst (fst r)) (fst (snd r))
                        \<and> same_fields (snd (fst r)) (snd (snd r)))
           (zip ps (concat (map snd (entry_results reg table kt vt
              (map (\<lambda>r. Arr [snd (fst r), snd (snd r)]) (pair_results nm reg kt vt ps))))))"
  using assms unfolding pair_results_def entry_results_def
  by (induction ps) (auto simp: round_trips_def split: prod.splits)

lemma filter_primitive_keys_same:
  "length qs = length ps
   \<Longrightarrow> list_all (\<lambda>r. same_fields (fst (fst r)) (fst (snd r))
                     \<and> same_fields (snd (fst r)) (snd (snd r))) (zip ps qs)
   \<Longrightarrow> filter isPrimitive (map fst qs) = filter isPrimitive (map fst ps)"
proof (induction ps qs rule: list_induct2')
  case (4 p ps q qs)
  then show ?case
    by (cases "isPrimitive (fst p)") (auto simp: same_fields_primitive dest: same_fields_not_primitive)
qed simp_all


lemma round_trips_object:
  assumes d: "reg c = Some d" and wf: "wf_descriptor d"
    and fs: "distinct (map fst fs)" and sub: "set (map fst fs) \<subseteq> set (map m_key (members d))"
    and mo: "\<forall>m \<in> set (members d).
               (case map_of fs (m_key m) of
                  None \<Rightarrow> \<not> m_emitDefaultValue m \<and> \<not> m_isRequired m
                | Some fv \<Rightarrow> fv \<noteq> Undefined \<and> round_trips nm reg table fv (typeTag m))"
  shows "round_trips nm reg table (Obj c fs) (Object c)"
proof -
  define ms where "ms = members d"
  have dk: "distinct (map m_key ms)" and dn: "distinct (map serializedName ms)"
    and nh: "typeHintKey \<notin> serializedName ` set ms"
    using wf by (simp_all add: wf_descriptor_def ms_def)
  define target where "target = snd (serializeMembers None nm reg fs ms [])"
  have member: "(case map_of fs (m_key m) of
                  None \<Rightarrow> \<not> m_emitDefaultValue m \<and> \<not> m_isRequired m
                | Some fv \<Rightarrow> fv \<noteq> Undefined \<and> round_trips nm reg table fv (typeTag m))"
    if "m \<in> set ms" for m
    using mo that by (simp add: ms_def)
  have shyp: "\<forall>m \<in> set ms.
           (case map_of fs (m_key m) of
              None \<Rightarrow> \<not> m_emitDefaultValue m
            | Some fv \<Rightarrow> fv \<noteq> Undefined
                \<and> fst (serializeValue None nm reg fv (typeTag m)) = []
                \<and> snd (serializeValue None nm reg fv (typeTag m)) \<noteq> Undefined)"
  proof
    fix m assume "m \<in> set ms"
    from member [OF this]
    show "case map_of fs (m_key m) of
              None \<Rightarrow> \<not> m_emitDefaultValue m
            | Some fv \<Rightarrow> fv \<noteq> Undefined
                \<and> fst (serializeValue None nm reg fv (typeTag m)) = []
                \<and> snd (serializeValue None nm reg fv (typeTag m)) \<noteq> Undefined"
      by (cases "map_of fs (m_key m)") (simp_all add: round_trips_iff)
  qed
  note S = serializeMembers_lookup [OF dn shyp, of "[]"]
  have se: "serializeMembers None nm reg fs ms [] = ([], target)"
    using S by (simp add: target_def prod_eq_iff)
  have T: "map_of target n =
              (case find (\<lambda>m. serializedName m = n \<and> map_of fs (m_key m) \<noteq> None) ms of
                 Some m \<Rightarrow> Some (snd (serializeValue None nm reg (the (map_of fs (m_key m))) (typeTag m)))
               | None \<Rightarrow> None)" for n
    using S by (simp add: target_def split: option.splits)
  have hint: "map_of target typeHintKey = None"
    using T [of typeHintKey] find_key_None [OF nh] by simp
  have lookup: "map_of target (serializedName m) =
       (case map_of fs (m_key m) of
          None \<Rightarrow> None
        | Some fv \<Rightarrow> Some (snd (serializeValue None nm reg fv (typeTag m))))"
    if "m \<in> set ms" for m
    using T [of "serializedName m"]
      find_unique [OF dn that, of "\<lambda>m. map_of fs (m_key m) \<noteq> None"]
    by (auto split: option.splits)
  have ser: "serializeValue None nm reg (Obj c fs) (Object c) = ([], Obj ObjectCtor target)"
    using d se by (simp add: ms_def emit_def emitTypeHint_def)
  define inst where "inst = snd (deserializeMembers None reg table target ms [])"
  have dhyp: "\<forall>m \<in> set ms.
           (case map_of target (serializedName m) of
              None \<Rightarrow> \<not> m_isRequired m
            | Some pv \<Rightarrow> fst (deserializeValue None reg table pv (typeTag m)) = []
                \<and> snd (deserializeValue None reg table pv (typeTag m)) \<noteq> Undefined)"
  proof
    fix m assume m: "m \<in> set ms"
    show "case map_of target (serializedName m) of
              None \<Rightarrow> \<not> m_isRequired m
            | Some pv \<Rightarrow> fst (deserializeValue None reg table pv (typeTag m)) = []
                \<and> snd (deserializeValue None reg table pv (typeTag m)) \<noteq> Undefined"
      using lookup [OF m] member [OF m]
      by (cases "map_of fs (m_key m)") (simp_all add: round_trips_iff)
  qed
  note D = deserializeMembers_lookup [OF dk dhyp, of "[]"]
  have de: "deserializeMembers None reg table target ms [] = ([], inst)"
    using D by (simp add: inst_def prod_eq_iff)
  have I: "map_of inst k =
              (case find (\<lambda>m. m_key m = k \<and> map_of target (serializedName m) \<noteq> None) ms of
                 Some m \<Rightarrow> Some (snd (deserializeValue None reg table
                                        (the (map_of target (serializedName m))) (typeTag m)))
               | None \<Rightarrow> None)" for k
    using D by (simp add: inst_def split: option.splits)
  have des: "deserializeValue None reg table (Obj ObjectCtor target) (Object c) = ([], Obj c inst)"
    using d de hint by (simp add: ms_def resolve_def resolveConstructor_def)
  have field: "\<exists>w. map_of inst k = Some w \<and> same_fields fv w" if "(k, fv) \<in> set fs" for k fv
  proof -
    have f: "map_of fs k = Some fv"
      using fs that by simp
    from that sub obtain m where m: "m \<in> set ms" and k: "m_key m = k"
      by (force simp: ms_def)
    have rt: "round_trips nm reg table fv (typeTag m)"
      using member [OF m] f k by simp
    have l: "map_of target (serializedName m)
               = Some (snd (serializeValue None nm reg fv (typeTag m)))"
      using lookup [OF m] f k by simp
    have "find (\<lambda>m'. m_key m' = m_key m \<and> map_of target (serializedName m') \<noteq> None) ms = Some m"
      using find_unique [OF dk m, of "\<lambda>m. map_of target (serializedName m) \<noteq> None"] l by simp
    then have "map_of inst k
         = Some (snd (deserializeValue None reg table
                        (snd (serializeValue None nm reg fv (typeTag m))) (typeTag m)))"
      using I [of k] k l by simp
    moreover have "same_fields fv (snd (deserializeValue None reg table
                        (snd (serializeValue None nm reg fv (typeTag m))) (typeTag m)))"
      using rt by (simp add: round_trips_iff)
    ultimately show ?thesis by blast
  qed
  have keys: "set (map fst inst) = set (map fst fs)"
  proof (intro equalityI subsetI)
    fix k assume "k \<in> set (map fst inst)"
    then have "map_of inst k \<noteq> None"
      by (simp add: map_of_eq_None_iff)
    then obtain m where "find (\<lambda>m. m_key m = k \<and> map_of target (serializedName m) \<noteq> None) ms = Some m"
      using I [of k] by (auto split: option.splits)
    then have m: "m \<in> set ms" and k: "m_key m = k" and p: "map_of target (serializedName m) \<noteq> None"
      by (auto simp: find_Some_iff)
    from lookup [OF m] p have "map_of fs (m_key m) \<noteq> None"
      by (auto split: option.splits)
    with k show "k \<in> set (map fst fs)"
      by (simp add: map_of_eq_None_iff)
  next
    fix k assume "k \<in> set (map fst fs)"
    then obtain fv where "(k, fv) \<in> set fs" by auto
    from field [OF this] obtain w where "map_of inst k = Some w" by blast
    then show "k \<in> set (map fst inst)"
      by (metis map_of_eq_None_iff option.distinct(1) set_map)
  qed
  have "case map_of inst (fst f) of Some v' \<Rightarrow> same_fields (snd f) v' | None \<Rightarrow> False"
    if "f \<in> set fs" for f
  proof -
    from that have "(fst f, snd f) \<in> set fs" by simp
    from field [OF this] show ?thesis by auto
  qed
  then have sf: "same_fields (Obj c fs) (Obj c inst)"
    using keys by (simp add: list_all_iff)
  show ?thesis
    using ser des sf by (simp add: round_trips_iff)
qed


lemma round_trips_array:
  assumes "\<forall>x \<in> set xs. round_trips nm reg table x (elementTag e depth)"
  shows "round_trips nm reg table (Arr xs) (ArrayT e depth)"
  using round_trips_elements [OF assms]
  by (simp add: round_trips_iff)

lemma round_trips_set:
  assumes "\<forall>x \<in> set xs. round_trips nm reg table x e"
    and "distinct (filter isPrimitive xs)"
  shows "round_trips nm reg table (SetV xs) (SetT e)"
proof -
  define ys where "ys = values_of (map (\<lambda>p. deserializeValue None reg table p e)
                      (values_of (map (\<lambda>x. serializeValue None nm reg x e) xs)))"
  note E = round_trips_elements [OF assms(1), folded ys_def]
  have "filter isPrimitive ys = filter isPrimitive xs"
    using E by (intro filter_primitive_same) simp_all
  then have "distinct (filter isPrimitive ([] @ ys))"
    using assms(2) by simp
  then have "fold set_add ys [] = [] @ ys"
    by (rule fold_set_add)
  with E show ?thesis
    by (simp add: round_trips_iff ys_def [symmetric])
qed

lemma round_trips_map:
  assumes "\<forall>p \<in> set ps. round_trips nm reg table (fst p) kt \<and> round_trips nm reg table (snd p) vt"
    and "distinct (filter isPrimitive (map fst ps))"
  shows "round_trips nm reg table (MapV ps) (MapT kt vt)"
proof -
  define rs where "rs = pair_results nm reg kt vt ps"
  define rs' where "rs' = entry_results reg table kt vt (map (\<lambda>r. Arr [snd (fst r), snd (snd r)]) rs)"
  define qs where "qs = concat (map snd rs')"
  note E = round_trips_pairs [OF assms(1), folded rs_def, folded rs'_def, folded qs_def]
  have "filter isPrimitive (map fst qs) = filter isPrimitive (map fst ps)"
    using E by (intro filter_primitive_keys_same) simp_all
  then have "distinct (filter isPrimitive (map fst ([] @ qs)))"
    using assms(2) by simp
  then have f: "fold map_put qs [] = qs"
    using fold_map_put [of "[]" qs] by simp
  have ser: "serializeValue None nm reg (MapV ps) (MapT kt vt)
      = (concat (map (\<lambda>r. fst (fst r) @ fst (snd r)) rs),
         Arr (map (\<lambda>r. Arr [snd (fst r), snd (snd r)]) rs))"
    unfolding rs_def pair_results_def by simp
  have des: "deserializeValue None reg table (Arr (map (\<lambda>r. Arr [snd (fst r), snd (snd r)]) rs))
               (MapT kt vt)
      = (concat (map fst rs'), MapV (fold map_put qs []))"
    unfolding qs_def rs'_def entry_results_def by simp
  show ?thesis
    unfolding round_trips_iff ser fst_conv snd_conv des f
    using E by simp
qed

lemma conforms_round_trips:
  "conforms reg v t \<longrightarrow> round_trips nm reg table v t"
  "conformsMembers reg fs ms \<longrightarrow>
     (\<forall>m \<in> set ms.
        (case map_of fs (m_key m) of
           None \<Rightarrow> \<not> m_emitDefaultValue m \<and> \<not> m_isRequired m
         | Some fv \<Rightarrow> fv \<noteq> Undefined \<and> round_trips nm reg table fv (typeTag m)))"
proof (induction reg v t and reg fs ms rule: conforms_conformsMembers.induct)
  case (1 reg v c)
  show ?case
    by (cases v) (auto simp: round_trips_iff)
next
  case (2 reg v c)
  show ?case
  proof
    assume conf: "conforms reg v (Object c)"
    then obtain fs where v: "v = Obj c fs"
      by (cases v) auto
    from conf v obtain d where d: "reg c = Some d"
      by (cases "reg c") auto
    from conf v d have wf: "wf_descriptor d" and fs: "distinct (map fst fs)"
      and sub: "set (map fst fs) \<subseteq> set (map m_key (members d))"
      and cm: "conformsMembers reg fs (members d)"
      by simp_all
    from "2.IH" [OF v d] cm
    have "\<forall>m \<in> set (members d).
               (case map_of fs (m_key m) of
                  None \<Rightarrow> \<not> m_emitDefaultValue m \<and> \<not> m_isRequired m
                | Some fv \<Rightarrow> fv \<noteq> Undefined \<and> round_trips nm reg table fv (typeTag m))"
      by simp
    from round_trips_object [OF d wf fs sub this] v
    show "round_trips nm reg table v (Object c)" by simp
  qed
next
  case (3 reg v e depth)
  show ?case
  proof
    assume conf: "conforms reg v (ArrayT e depth)"
    then obtain xs where v: "v = Arr xs"
      by (cases v) auto
    from conf v "3.IH" [OF v] have "\<forall>x \<in> set xs. round_trips nm reg table x (elementTag e depth)"
      by (auto simp: list_all_iff)
    from round_trips_array [OF this] v
    show "round_trips nm reg table v (ArrayT e depth)" by simp
  qed
next
  case (4 reg v e)
  show ?case
  proof
    assume conf: "conforms reg v (SetT e)"
    then obtain xs where v: "v = SetV xs"
      by (cases v) auto
    from conf v "4.IH" [OF v] have "\<forall>x \<in> set xs. round_trips nm reg table x e"
      and "distinct (filter isPrimitive xs)"
      by (auto simp: list_all_iff)
    from round_trips_set [OF this] v
    show "round_trips nm reg table v (SetT e)" by simp
  qed
next
  case (5 reg v kt vt)
  show ?case
  proof
    assume conf: "conforms reg v (MapT kt vt)"
    then obtain ps where v: "v = MapV ps"
      by (cases v) auto
    from conf v "5.IH" [OF v]
    have "\<forall>p \<in> set ps. round_trips nm reg table (fst p) kt \<and> round_trips nm reg table (snd p) vt"
      and "distinct (filter isPrimitive (map fst ps))"
      by (auto simp: list_all_iff)
    from round_trips_map [OF this] v
    show "round_trips nm reg table v (MapT kt vt)" by simp
  qed
next
  case (6 reg fs)
  show ?case by simp
next
  case (7 reg fs m ms)
  show ?case
  proof
    assume cm: "conformsMembers reg fs (m # ms)"
    show "\<forall>m' \<in> set (m # ms).
        (case map_of fs (m_key m') of
           None \<Rightarrow> \<not> m_emitDefaultValue m' \<and> \<not> m_isRequired m'
         | Some fv \<Rightarrow> fv \<noteq> Undefined \<and> round_trips nm reg table fv (typeTag m'))"
    proof (cases "map_of fs (m_key m)")
      case None
      with cm "7.IH"(2) show ?thesis by simp
    next
      case (Some fv)
      with cm have "conforms reg fv (typeTag m)" by simp
      with "7.IH"(1) [OF Some] conforms_defined [OF this] Some cm "7.IH"(2)
      show ?thesis by simp
    qed
  qed
qed

lemma deliver_no_errors: "deliver h ([], v) = ([], Inr v)"
  by (simp add: deliver_def bind_def)

text \<open>
  Claim C1, as the converter of the specification has it. Let \<open>x\<close> conform to the root
  type of a converter that uses the default type resolver and the default hint emitter:
  \<open>x\<close> is an object of the root class, nothing in it is polymorphic, every own property
  is a declared member and holds a value of its declared type, a member that is left unset
  has neither \<open>emitDefaultValue\<close> nor \<open>isRequired\<close>, and the descriptors involved have
  distinct member keys and serialized names, none of them the reserved key. Then the
  serializer reports no error and returns a plain value, and the deserializer, given that
  plain value and the type information that \<^verbatim>\<open>parse\<close> passes, reports no error and returns a
  value that is \<open>x\<close> field by field.
\<close>

theorem round_trip:
  assumes "conforms reg x (tagOfCtor (rootConstructor this))"
    and "z_typeHintEmitter (serializer this) = None"
    and "d_typeResolver (deserializer this) = None"
  shows "\<exists>plain y.
           ser_convertSingleValue (spec_world reg nm ext) (serializer this) x (rootConstructor this)
             = ([], Inr plain)
         \<and> des_convertSingleValue (spec_world reg nm ext) (deserializer this) plain
               (parse_typeInfo (spec_world reg nm ext) this)
             = ([], Inr y)
         \<and> same_fields x y"
proof -
  define t where "t = tagOfCtor (rootConstructor this)"
  define table where "table = parse_knownTypes (spec_world reg nm ext) this"
  have rt: "round_trips nm reg table x t"
    using conforms_round_trips(1) [of reg x t nm table] assms(1) by (simp add: t_def)
  define plain where "plain = snd (serializeValue None nm reg x t)"
  define y where "y = snd (deserializeValue None reg table plain t)"
  have s: "serializeValue None nm reg x t = ([], plain)"
    using rt by (simp add: round_trips_iff plain_def prod_eq_iff)
  have d: "deserializeValue None reg table plain t = ([], y)"
    using rt by (simp add: round_trips_iff plain_def y_def prod_eq_iff)
  have sf: "same_fields x y"
    using rt by (simp add: round_trips_iff plain_def y_def)
  have "ser_convertSingleValue (spec_world reg nm ext) (serializer this) x (rootConstructor this)
          = ([], Inr plain)"
    using s assms(2)
    by (simp add: spec_world_def spec_ser_convertSingleValue_def t_def deliver_no_errors)
  moreover have "des_convertSingleValue (spec_world reg nm ext) (deserializer this) plain
               (parse_typeInfo (spec_world reg nm ext) this) = ([], Inr y)"
    using d assms(3)
    by (simp add: spec_world_def spec_des_convertSingleValue_def parse_typeInfo_def t_def table_def
        deliver_no_errors)
  ultimately show ?thesis
    using sf by blast
qed

theorem round_trip_witness:
  "conforms demo_registry (Obj (ClassCtor 1) [(''b'', Str ''x''), (''a'', Num 1)])
     (tagOfCtor (rootConstructor (initial demo_world (ClassCtor 1))))
   \<and> z_typeHintEmitter (serializer (initial demo_world (ClassCtor 1))) = None
   \<and> d_typeResolver (deserializer (initial demo_world (ClassCtor 1))) = None
   \<and> (\<exists>plain y.
         ser_convertSingleValue demo_world (serializer (initial demo_world (ClassCtor 1)))
             (Obj (ClassCtor 1) [(''b'', Str ''x''), (''a'', Num 1)])
             (rootConstructor (initial demo_world (ClassCtor 1)))
           = ([], Inr plain)
       \<and> des_convertSingleValue demo_world (deserializer (initial demo_world (ClassCtor 1))) plain
             (parse_typeInfo demo_world (initial demo_world (ClassCtor 1)))
           = ([], Inr y)
       \<and> same_fields (Obj (ClassCtor 1) [(''b'', Str ''x''), (''a'', Num 1)]) y)"
proof -
  have c: "conforms demo_registry (Obj (ClassCtor 1) [(''b'', Str ''x''), (''a'', Num 1)])
     (tagOfCtor (rootConstructor (initial demo_world (ClassCtor 1))))"
    by code_simp
  have e: "z_typeHintEmitter (serializer (initial demo_world (ClassCtor 1))) = None"
    by (simp add: initial_def)
  have r: "d_typeResolver (deserializer (initial demo_world (ClassCtor 1))) = None"
    by (simp add: initial_def)
  from round_trip [OF c e r, of demo_nameof demo_extends] c e r
  show ?thesis
    by (simp add: demo_world_def)
qed

text \<open>The same instance through \<^verbatim>\<open>stringify\<close> and \<^verbatim>\<open>parse\<close>.\<close>

lemma round_trip_through_text:
  \<open>static_stringify demo_world None (Obj (ClassCtor 1) [(''b'', Str ''x''), (''a'', Num 1)])
       (ClassCtor 1) None
     = ([], Inr (Str ''{"a":1,"b":"x"}''))
   \<and> static_parse demo_world None ''{"a":1,"b":"x"}'' (ClassCtor 1) None
     = ([], Inr (Obj (ClassCtor 1) [(''a'', Num 1), (''b'', Str ''x'')]))
   \<and> same_fields (Obj (ClassCtor 1) [(''b'', Str ''x''), (''a'', Num 1)])
         (Obj (ClassCtor 1) [(''a'', Num 1), (''b'', Str ''x'')])\<close>
  by code_simp

text \<open>
  Claim C1 as stated fails. \<open>Counter\<close> declares the number member \<open>n\<close> with
  \<open>emitDefaultValue\<close>. An instance that leaves \<open>n\<close> unset has no polymorphic field; the
  serializer writes the default \<open>0\<close> for \<open>n\<close>, and the deserializer returns an instance in
  which \<open>n\<close> is \<open>0\<close>. This is so for the plain values and for the texts of
  \<^verbatim>\<open>stringify\<close> and \<^verbatim>\<open>parse\<close>.
\<close>

theorem emit_default_counterexample:
  \<open>ser_convertSingleValue demo_world (serializer (initial demo_world (ClassCtor 4)))
       (Obj (ClassCtor 4) []) (ClassCtor 4)
     = ([], Inr (Obj ObjectCtor [(''n'', Num 0)]))
   \<and> des_convertSingleValue demo_world (deserializer (initial demo_world (ClassCtor 4)))
       (Obj ObjectCtor [(''n'', Num 0)]) (parse_typeInfo demo_world (initial demo_world (ClassCtor 4)))
     = ([], Inr (Obj (ClassCtor 4) [(''n'', Num 0)]))
   \<and> static_stringify demo_world None (Obj (ClassCtor 4) []) (ClassCtor 4) None
     = ([], Inr (Str ''{"n":0}''))
   \<and> static_parse demo_world None ''{"n":0}'' (ClassCtor 4) None
     = ([], Inr (Obj (ClassCtor 4) [(''n'', Num 0)]))
   \<and> \<not> same_fields (Obj (ClassCtor 4) []) (Obj (ClassCtor 4) [(''n'', Num 0)])\<close>
  by code_simp

text \<open>
  Two further conditions of the round trip are needed as well. A member that is serialized
  under the reserved key is read back as a type hint: the deserializer reports an
  unresolvable constructor and returns no instance. A required member that is left unset
  is left out by the serializer, and the deserializer reports it as missing.
\<close>

lemma reserved_key_member_is_read_as_hint:
  \<open>static_stringify demo_world None (Obj (ClassCtor 5) [(''kind'', Str ''x'')]) (ClassCtor 5) None
     = ([], Inr (Str ''{"__type":"x"}''))
   \<and> static_parse demo_world None ''{"__type":"x"}'' (ClassCtor 5) None
     = ([Handled (Conversion UnresolvableConstructor ''x''),
         ErrorLogged (Conversion UnresolvableConstructor ''x'')],
        Inr Undefined)\<close>
  by code_simp

lemma unset_required_member_is_reported:
  \<open>static_stringify demo_world None (Obj (ClassCtor 6) []) (ClassCtor 6) None
     = ([], Inr (Str ''{}''))
   \<and> static_parse demo_world None ''{}'' (ClassCtor 6) None
     = ([Handled (Conversion MissingRequiredMember ''id''),
         ErrorLogged (Conversion MissingRequiredMember ''id'')],
        Inr (Obj (ClassCtor 6) []))\<close>
  by code_simp

end
